theory Spec2Isabelle
  imports Complex_Main
begin

section \<open>The metrics registry of workflow/metrics/metrics.go\<close>

text \<open>
  The registry is the Go struct \<^verbatim>\<open>Metrics\<close>. Every operation modelled here holds the
  struct's mutex for its whole body, so each operation is one atomic step on the state
  and is modelled as a function from the state to a result and the next state.
\<close>

subsection \<open>Instruments\<close>

text \<open>
  A \<^verbatim>\<open>prometheus.Metric\<close> is an interface value that points to an instrument object.
  The registry uses three things of such an object, all fixed when the object is built:
  its identity (the address of the object, \<open>ident\<close>), its dynamic type (\<open>kind\<close>) and the
  text that \<^verbatim>\<open>Desc().String()\<close> returns (\<open>desc\<close>). The bucket bounds of a histogram are
  kept as data. A nil interface value is \<open>None\<close> of \<open>instrument option\<close>.
\<close>

datatype kind = Counter | Gauge | Histogram

type_synonym labels = "(string \<times> string) list"

record instrument =
  ident :: nat
  kind :: kind
  desc :: string
  buckets :: "real list"

text \<open>The struct \<^verbatim>\<open>metric\<close>; \<open>time\<close> is an instant read from the clock.\<close>

type_synonym time = int

record metric =
  metric :: instrument
  lastUpdated :: time

type_synonym NodePhase = string
type_synonym ErrorCause = string

definition ErrorCauseOperationPanic :: ErrorCause where
  "ErrorCauseOperationPanic = ''OperationPanic''"

definition ErrorCauseCronWorkflowSubmissionError :: ErrorCause where
  "ErrorCauseCronWorkflowSubmissionError = ''CronWorkflowSubmissionError''"

subsection \<open>What metrics.go calls but does not define\<close>

text \<open>
  Four things are used by metrics.go and defined elsewhere. They are parameters of the
  model, so every theorem below holds for whatever they do:
  \<^item> \<open>descString name help labels\<close>: the text of \<^verbatim>\<open>Desc().String()\<close> of an instrument that the
    package's factory builds from a name, a help text and constant labels;
  \<^item> \<open>recoverMetricNameAndHelpFromDesc\<close>: the package helper that reads the name and the
    help text back out of a descriptor text;
  \<^item> \<open>getWorkflowPhaseGauges\<close> and \<open>getErrorCounters\<close>: the maps the two package helpers
    return when the registry is constructed.
\<close>

record helpers =
  descString :: "string \<Rightarrow> string \<Rightarrow> labels \<Rightarrow> string"
  recoverMetricNameAndHelpFromDesc :: "string \<Rightarrow> string \<times> string"
  getWorkflowPhaseGauges :: "NodePhase \<rightharpoonup> instrument"
  getErrorCounters :: "ErrorCause \<rightharpoonup> instrument"

text \<open>
  Modelled from the spec: \<^verbatim>\<open>newCounter\<close>, of the instrument factory \<^verbatim>\<open>newCounter\<close>,
  \<^verbatim>\<open>newGauge\<close>, \<^verbatim>\<open>newHistogram\<close>, which is not in metrics.go. The spec says the factory
  "builds individual counter/gauge/histogram objects from a name, help text, and label
  set; stateless". The last argument is the address the runtime gives to the new object.
\<close>

definition newCounter :: "helpers \<Rightarrow> string \<Rightarrow> string \<Rightarrow> labels \<Rightarrow> nat \<Rightarrow> instrument" where
  "newCounter h name help labels a =
     \<lparr>ident = a, kind = Counter, desc = descString h name help labels, buckets = []\<rparr>"

text \<open>
  Modelled from the spec: \<^verbatim>\<open>newGauge\<close>, the part of the same factory that builds a gauge;
  it is not in metrics.go.
\<close>

definition newGauge :: "helpers \<Rightarrow> string \<Rightarrow> string \<Rightarrow> labels \<Rightarrow> nat \<Rightarrow> instrument" where
  "newGauge h name help labels a =
     \<lparr>ident = a, kind = Gauge, desc = descString h name help labels, buckets = []\<rparr>"

text \<open>
  Modelled from the spec: \<^verbatim>\<open>newHistogram\<close>, the part of the same factory that builds a
  histogram with the given bucket bounds; it is not in metrics.go.
\<close>

definition newHistogram ::
  "helpers \<Rightarrow> string \<Rightarrow> string \<Rightarrow> labels \<Rightarrow> real list \<Rightarrow> nat \<Rightarrow> instrument" where
  "newHistogram h name help labels bs a =
     \<lparr>ident = a, kind = Histogram, desc = descString h name help labels, buckets = bs\<rparr>"

subsection \<open>The registry state\<close>

text \<open>
  The fields of the struct \<^verbatim>\<open>Metrics\<close>, in the order of the source. A Go map is a partial
  function. Left out are the fields that no operation modelled here reads: the mutex,
  the two \<^verbatim>\<open>ServerConfig\<close> values and the counter vector \<^verbatim>\<open>logMetric\<close> (which is a
  collector of its own type and not a \<^verbatim>\<open>prometheus.Metric\<close>).

  The last field is not a field of the struct. It is the part of the heap that holds the
  \<^verbatim>\<open>[]prometheus.Metric\<close> slices built by \<^verbatim>\<open>allMetrics\<close>, in the order of their allocation;
  the reference to a slice is its index. It is there so that what a later operation does
  to a slice that was already returned can be stated.
\<close>

record Metrics =
  workflowsProcessed :: instrument
  workflowsByPhase :: "NodePhase \<rightharpoonup> instrument"
  workflows :: "string \<rightharpoonup> string list"
  operationDurations :: instrument
  errors :: "ErrorCause \<rightharpoonup> instrument"
  customMetrics :: "string \<rightharpoonup> metric"
  workqueueMetrics :: "string \<rightharpoonup> instrument"
  defaultMetricDescs :: "string \<rightharpoonup> bool"
  metricNameHelps :: "string \<rightharpoonup> string"
  podDeletionLatency :: instrument
  podGCAddedToQueue :: instrument
  podGCRemovedFromQueue :: instrument
  podInformerAddPod :: instrument
  podInformerUpdatePod :: instrument
  podInformerDeletePod :: instrument
  processNextItemDuration :: instrument
  workflowQueueDepth :: instrument
  podQueueDepth :: instrument
  deadlineExceeded :: instrument
  snapshots :: "instrument list list"

subsection \<open>Ranging over a map\<close>

text \<open>
  Go leaves the order in which \<^verbatim>\<open>range\<close> visits a map to the runtime. The order is an
  input of the model: a list of keys, which the runtime chooses so that every key of the
  map occurs in it exactly once (\<open>rangeOrder\<close>). \<open>rangeValues\<close> is the sequence of values
  the loop body then sees.
\<close>

definition rangeOrder :: "('k \<rightharpoonup> 'v) \<Rightarrow> 'k list \<Rightarrow> bool" where
  "rangeOrder m ks \<longleftrightarrow> distinct ks \<and> set ks = dom m"

definition rangeValues :: "('k \<rightharpoonup> 'v) \<Rightarrow> 'k list \<Rightarrow> 'v list" where
  "rangeValues m ks = List.map_filter m ks"

record orders =
  phaseOrder :: "NodePhase list"
  errorOrder :: "ErrorCause list"
  queueOrder :: "string list"
  customOrder :: "string list"

definition validOrders :: "orders \<Rightarrow> Metrics \<Rightarrow> bool" where
  "validOrders ord m \<longleftrightarrow>
     rangeOrder (workflowsByPhase m) (phaseOrder ord) \<and>
     rangeOrder (errors m) (errorOrder ord) \<and>
     rangeOrder (workqueueMetrics m) (queueOrder ord) \<and>
     rangeOrder (customMetrics m) (customOrder ord)"

subsection \<open>allMetrics\<close>

text \<open>
  \<open>allMetricsSeq\<close> is the sequence that the body of \<^verbatim>\<open>allMetrics\<close> builds: the slice
  literal with the twelve instrument fields, then the four appending loops. \<open>allMetrics\<close>
  puts it into a new slice and returns the reference to that slice.
\<close>

definition allMetricsSeq :: "orders \<Rightarrow> Metrics \<Rightarrow> instrument list" where
  "allMetricsSeq ord m =
     [workflowsProcessed m, operationDurations m, podDeletionLatency m,
      podGCAddedToQueue m, podGCRemovedFromQueue m, podInformerAddPod m,
      podInformerUpdatePod m, podInformerDeletePod m, processNextItemDuration m,
      workflowQueueDepth m, podQueueDepth m, deadlineExceeded m]
     @ rangeValues (workflowsByPhase m) (phaseOrder ord)
     @ rangeValues (errors m) (errorOrder ord)
     @ rangeValues (workqueueMetrics m) (queueOrder ord)
     @ map metric (rangeValues (customMetrics m) (customOrder ord))"

definition allMetrics :: "orders \<Rightarrow> Metrics \<Rightarrow> nat \<times> Metrics" where
  "allMetrics ord m =
     (length (snapshots m), m\<lparr>snapshots := snapshots m @ [allMetricsSeq ord m]\<rparr>)"

subsection \<open>New\<close>

text \<open>
  The constructor, in two parts. \<open>metricsLiteral\<close> is the composite literal
  \<^verbatim>\<open>&Metrics{...}\<close>: the twelve instrument fields are built by the factory, in the order
  of the literal, at the addresses \<open>a\<close>, \<open>a + 1\<close>, ...; the two helper maps are taken as
  they are returned; the five maps made with \<^verbatim>\<open>make\<close> are empty. \<open>New\<close> then runs the
  loop over \<^verbatim>\<open>metrics.allMetrics()\<close>, which enters the descriptor text of every instrument
  into \<open>defaultMetricDescs\<close>.
\<close>

definition metricsLiteral :: "helpers \<Rightarrow> nat \<Rightarrow> Metrics" where
  "metricsLiteral h a =
     \<lparr>workflowsProcessed =
        newCounter h ''workflows_processed_count'' ''Number of workflow updates processed'' [] a,
      workflowsByPhase = getWorkflowPhaseGauges h,
      workflows = Map.empty,
      operationDurations =
        newHistogram h ''operation_duration_seconds'' ''Histogram of durations of operations'' []
          [0.1, 0.25, 0.5, 0.75, 1.0, 1.25, 1.5, 1.75, 2.0, 2.5, 3.0] (a + 1),
      errors = getErrorCounters h,
      customMetrics = Map.empty,
      workqueueMetrics = Map.empty,
      defaultMetricDescs = Map.empty,
      metricNameHelps = Map.empty,
      podDeletionLatency =
        newGauge h ''wcustom_pod_deletion_latency'' ''Latency for pod deletion (ms)'' [] (a + 2),
      podGCAddedToQueue =
        newCounter h ''wcustom_pod_gc_added_to_queue'' ''Pod GC requests added to queue'' [] (a + 3),
      podGCRemovedFromQueue =
        newCounter h ''wcustom_pod_gc_removed_from_queue'' ''Pod GC requests removed from queue'' []
          (a + 4),
      podInformerAddPod =
        newCounter h ''wcustom_pod_informer_add_pod''
          ''Pod informer notified that a pod was added'' [] (a + 5),
      podInformerUpdatePod =
        newCounter h ''wcustom_pod_informer_update_pod''
          ''Pod informer notified that a pod was updated'' [] (a + 6),
      podInformerDeletePod =
        newCounter h ''wcustom_pod_informer_delete_pod''
          ''Pod informer notified that a pod was deleted'' [] (a + 7),
      processNextItemDuration =
        newGauge h ''wcustom_process_next_item_duration'' ''Latency for processNextItem (ms)'' []
          (a + 8),
      workflowQueueDepth =
        newGauge h ''wcustom_workflow_queue_depth'' ''Depth of workflow queue'' [] (a + 9),
      podQueueDepth = newGauge h ''wcustom_pod_queue_depth'' ''Depth of pod queue'' [] (a + 10),
      deadlineExceeded = newCounter h ''wcustom_deadline_exceeded'' ''Deadline exceeded'' [] (a + 11),
      snapshots = []\<rparr>"

definition New :: "helpers \<Rightarrow> orders \<Rightarrow> nat \<Rightarrow> Metrics" where
  "New h ord a =
    (let metrics = metricsLiteral h a;
         (sl, metrics) = allMetrics ord metrics
     in metrics\<lparr>defaultMetricDescs :=
          fold (\<lambda>metric d. d(desc metric \<mapsto> True)) (snapshots metrics ! sl)
            (defaultMetricDescs metrics)\<rparr>)"

subsection \<open>StopRealtimeMetricsForKey and GetCustomMetric\<close>

definition StopRealtimeMetricsForKey :: "string \<Rightarrow> Metrics \<Rightarrow> Metrics" where
  "StopRealtimeMetricsForKey key m =
     (case workflows m key of
        None \<Rightarrow> m
      | Some realtimeMetrics \<Rightarrow>
          m\<lparr>customMetrics := fold (\<lambda>metric cm. cm(metric := None)) realtimeMetrics (customMetrics m),
            workflows := (workflows m)(key := None)\<rparr>)"

text \<open>
  A key that is not in the map reads as the zero \<^verbatim>\<open>metric\<close>, whose instrument is nil.
\<close>

definition GetCustomMetric :: "string \<Rightarrow> Metrics \<Rightarrow> instrument option" where
  "GetCustomMetric key m =
     (case customMetrics m key of None \<Rightarrow> None | Some e \<Rightarrow> Some (metric e))"

subsection \<open>UpsertCustomMetric\<close>

text \<open>
  What a call of \<^verbatim>\<open>UpsertCustomMetric\<close> ends with: the nil error, one of the two errors
  built with \<^verbatim>\<open>fmt.Errorf\<close> (with the values their messages are built from), or the
  runtime panic of calling \<^verbatim>\<open>Desc()\<close> on a nil interface value.

  The function follows the source statement by statement: the descriptor text, the
  lookup in \<open>defaultMetricDescs\<close> (presence of the key, not its value), the name and the
  help text read back from the descriptor text, the comparison with the registered help
  text (an error when the name is registered with another help text, and otherwise the
  name is bound to the help text), the store of the entry with the clock reading \<open>now\<close>,
  and for a realtime metric the append of the key to the owner's list (the nil list when
  the owner has none).
\<close>

datatype outcome =
    Success
  | DescriptorCollision string
  | HelpTextMismatch string string string
  | NilPanic

definition UpsertCustomMetric ::
  "helpers \<Rightarrow> string \<Rightarrow> string \<Rightarrow> instrument option \<Rightarrow> bool \<Rightarrow> time \<Rightarrow> Metrics
     \<Rightarrow> outcome \<times> Metrics" where
  "UpsertCustomMetric h key ownerKey newMetric realtime now m =
     (case newMetric of
        None \<Rightarrow> (NilPanic, m)
      | Some nm \<Rightarrow>
         (let metricDesc = desc nm in
          if defaultMetricDescs m metricDesc \<noteq> None then (DescriptorCollision metricDesc, m)
          else
            (let (name, help) = recoverMetricNameAndHelpFromDesc h metricDesc in
             case (case metricNameHelps m name of
                     None \<Rightarrow> None
                   | Some existingHelp \<Rightarrow> if help \<noteq> existingHelp then Some existingHelp else None) of
               Some existingHelp \<Rightarrow> (HelpTextMismatch name help existingHelp, m)
             | None \<Rightarrow>
               (let m1 = m\<lparr>metricNameHelps := (metricNameHelps m)(name \<mapsto> help)\<rparr>;
                    m2 = m1\<lparr>customMetrics :=
                            (customMetrics m1)(key \<mapsto> \<lparr>metric = nm, lastUpdated = now\<rparr>)\<rparr>;
                    m3 = (if realtime
                          then m2\<lparr>workflows :=
                                 (workflows m2)(ownerKey \<mapsto>
                                    (case workflows m2 ownerKey of None \<Rightarrow> [] | Some ks \<Rightarrow> ks)
                                    @ [key])\<rparr>
                          else m2)
                in (Success, m3)))))"

subsection \<open>The queue accessors\<close>

text \<open>
  The three accessors end with a type assertion on the stored instrument, which panics
  when the instrument does not have the methods of the asserted interface; the result
  \<open>None\<close> is that panic. A prometheus gauge has the methods of a counter (\<^verbatim>\<open>Inc\<close>,
  \<^verbatim>\<open>Add\<close>), so a gauge passes the assertion to \<^verbatim>\<open>prometheus.Counter\<close>; no other kind
  passes for another. The second argument is the address given to the instrument when
  one is built.
\<close>

fun implements :: "kind \<Rightarrow> kind \<Rightarrow> bool" where
  "implements Gauge Counter = True"
| "implements k i = (k = i)"

definition typeAssert :: "instrument option \<Rightarrow> kind \<Rightarrow> instrument option" where
  "typeAssert v i =
     (case v of None \<Rightarrow> None | Some g \<Rightarrow> if implements (kind g) i then Some g else None)"

definition NewDepthMetric ::
  "helpers \<Rightarrow> string \<Rightarrow> nat \<Rightarrow> Metrics \<Rightarrow> instrument option \<times> Metrics" where
  "NewDepthMetric h name a m =
     (let key = name @ ''-depth'';
          m1 = (if workqueueMetrics m key = None
                then m\<lparr>workqueueMetrics := (workqueueMetrics m)(key \<mapsto>
                         newGauge h ''queue_depth_count'' ''Depth of the queue''
                           [(''queue_name'', name)] a)\<rparr>
                else m)
      in (typeAssert (workqueueMetrics m1 key) Gauge, m1))"

definition NewAddsMetric ::
  "helpers \<Rightarrow> string \<Rightarrow> nat \<Rightarrow> Metrics \<Rightarrow> instrument option \<times> Metrics" where
  "NewAddsMetric h name a m =
     (let key = name @ ''-adds'';
          m1 = (if workqueueMetrics m key = None
                then m\<lparr>workqueueMetrics := (workqueueMetrics m)(key \<mapsto>
                         newCounter h ''queue_adds_count'' ''Adds to the queue''
                           [(''queue_name'', name)] a)\<rparr>
                else m)
      in (typeAssert (workqueueMetrics m1 key) Counter, m1))"

definition NewLatencyMetric ::
  "helpers \<Rightarrow> string \<Rightarrow> nat \<Rightarrow> Metrics \<Rightarrow> instrument option \<times> Metrics" where
  "NewLatencyMetric h name a m =
     (let key = name @ ''-latency'';
          m1 = (if workqueueMetrics m key = None
                then m\<lparr>workqueueMetrics := (workqueueMetrics m)(key \<mapsto>
                         newHistogram h ''queue_latency'' ''Time objects spend waiting in the queue''
                           [(''queue_name'', name)] [1.0, 5.0, 20.0, 60.0, 180.0] a)\<rparr>
                else m)
      in (typeAssert (workqueueMetrics m1 key) Histogram, m1))"

subsection \<open>Sequences of operations\<close>

text \<open>
  The calls that change the state, with their arguments and with what the runtime
  supplies to them (the clock reading, the address of a new object, the order of the
  map iterations). \<open>exec\<close> is the state after one call, \<open>run\<close> after a sequence of calls.
\<close>

datatype op =
    Upsert string string "instrument option" bool time
  | Stop string
  | Depth string nat
  | Adds string nat
  | Latency string nat
  | Snapshot orders

fun exec :: "helpers \<Rightarrow> op \<Rightarrow> Metrics \<Rightarrow> Metrics" where
  "exec h (Upsert key ownerKey newMetric realtime now) m =
     snd (UpsertCustomMetric h key ownerKey newMetric realtime now m)"
| "exec h (Stop key) m = StopRealtimeMetricsForKey key m"
| "exec h (Depth name a) m = snd (NewDepthMetric h name a m)"
| "exec h (Adds name a) m = snd (NewAddsMetric h name a m)"
| "exec h (Latency name a) m = snd (NewLatencyMetric h name a m)"
| "exec h (Snapshot ord) m = snd (allMetrics ord m)"

definition run :: "helpers \<Rightarrow> op list \<Rightarrow> Metrics \<Rightarrow> Metrics" where
  "run h ops m = fold (exec h) ops m"

text \<open>
  A call is admissible in a state when the iteration orders it is given are orders the
  runtime can choose there. \<open>unrestricted\<close> and \<open>exclusive\<close> are two disciplines on the
  callers: none at all, and that a realtime upsert never uses a key that is at that
  moment in the index of another owner.
\<close>

fun admissible :: "op \<Rightarrow> Metrics \<Rightarrow> bool" where
  "admissible (Snapshot ord) m = validOrders ord m"
| "admissible _ m = True"

definition unrestricted :: "op \<Rightarrow> Metrics \<Rightarrow> bool" where
  "unrestricted x m = True"

fun exclusive :: "op \<Rightarrow> Metrics \<Rightarrow> bool" where
  "exclusive (Upsert key ownerKey newMetric realtime now) m =
     (realtime \<longrightarrow> (\<forall>owner ks. workflows m owner = Some ks \<longrightarrow> owner \<noteq> ownerKey \<longrightarrow> key \<notin> set ks))"
| "exclusive _ m = True"

text \<open>
  The states the registry can be in: the state \<^verbatim>\<open>New\<close> returns, and every state that a
  call allowed by the discipline \<open>G\<close> leads to.
\<close>

inductive reachable :: "helpers \<Rightarrow> (op \<Rightarrow> Metrics \<Rightarrow> bool) \<Rightarrow> Metrics \<Rightarrow> bool"
  for h :: helpers and G :: "op \<Rightarrow> Metrics \<Rightarrow> bool" where
  init: "rangeOrder (getWorkflowPhaseGauges h) (phaseOrder ord) \<Longrightarrow>
         rangeOrder (getErrorCounters h) (errorOrder ord) \<Longrightarrow>
         reachable h G (New h ord a)"
| step: "reachable h G m \<Longrightarrow> admissible x m \<Longrightarrow> G x m \<Longrightarrow> reachable h G (exec h x m)"

text \<open>
  The instruments that are built when the registry is constructed: the twelve instrument
  fields, the gauges per phase and the counters per error cause.
\<close>

definition builtinMetrics :: "Metrics \<Rightarrow> instrument set" where
  "builtinMetrics m =
     {workflowsProcessed m, operationDurations m, podDeletionLatency m,
      podGCAddedToQueue m, podGCRemovedFromQueue m, podInformerAddPod m,
      podInformerUpdatePod m, podInformerDeletePod m, processNextItemDuration m,
      workflowQueueDepth m, podQueueDepth m, deadlineExceeded m}
     \<union> ran (workflowsByPhase m) \<union> ran (errors m)"

subsection \<open>The owner index and the entry map\<close>

text \<open>
  Two conditions on a state, used to relate the owner index \<open>workflows\<close> to the entry map
  \<open>customMetrics\<close>: every key listed under an owner has an entry, and no key is listed
  under two owners.
\<close>

definition indexSound :: "Metrics \<Rightarrow> bool" where
  "indexSound m \<longleftrightarrow>
     (\<forall>owner ks k. workflows m owner = Some ks \<longrightarrow> k \<in> set ks \<longrightarrow> customMetrics m k \<noteq> None)"

definition indexDisjoint :: "Metrics \<Rightarrow> bool" where
  "indexDisjoint m \<longleftrightarrow>
     (\<forall>o1 o2 ks1 ks2. workflows m o1 = Some ks1 \<longrightarrow> workflows m o2 = Some ks2 \<longrightarrow> o1 \<noteq> o2
        \<longrightarrow> set ks1 \<inter> set ks2 = {})"

text \<open>
  The kinds of the stored queue instruments agree with the suffixes of their keys.
\<close>

definition queueKinds :: "Metrics \<Rightarrow> bool" where
  "queueKinds m \<longleftrightarrow>
     (\<forall>name g.
        (workqueueMetrics m (name @ ''-depth'') = Some g \<longrightarrow> kind g = Gauge) \<and>
        (workqueueMetrics m (name @ ''-adds'') = Some g \<longrightarrow> kind g = Counter) \<and>
        (workqueueMetrics m (name @ ''-latency'') = Some g \<longrightarrow> kind g = Histogram))"

section \<open>A concrete registry\<close>

text \<open>
  One instance of the parameters and a few instruments and call sequences, on which the
  operations are evaluated below. The descriptor text of the instance is the name, the
  help text and the labels separated by bars, and the helper reads the first two parts
  back. The helper maps hold gauges for two phases and counters for the two error causes
  of metrics.go. As in the real package, two instruments with the same name and
  different help texts have different descriptor texts.

  \<open>exShadow\<close> has the descriptor of the built-in instrument \<open>workflowsProcessed\<close> and
  \<open>exShadowPhase\<close> that of the gauge of the phase \<open>Running\<close>; \<open>exClash\<close>
  has the name of that instrument and a help text of its own; \<open>exGaugeA\<close> and \<open>exGaugeB\<close>
  share a name and differ in the help text; \<open>exGaugeC\<close> has another name.
\<close>

definition exPhaseRunning :: instrument where
  "exPhaseRunning = \<lparr>ident = 20, kind = Gauge,
     desc = ''count|Number of workflows by status|status=Running;'', buckets = []\<rparr>"

definition exPhaseFailed :: instrument where
  "exPhaseFailed = \<lparr>ident = 21, kind = Gauge,
     desc = ''count|Number of workflows by status|status=Failed;'', buckets = []\<rparr>"

definition exErrPanic :: instrument where
  "exErrPanic = \<lparr>ident = 22, kind = Counter,
     desc = ''error_count|Number of errors by cause|cause=OperationPanic;'', buckets = []\<rparr>"

definition exErrCron :: instrument where
  "exErrCron = \<lparr>ident = 23, kind = Counter,
     desc = ''error_count|Number of errors by cause|cause=CronWorkflowSubmissionError;'',
     buckets = []\<rparr>"

definition exHelpers :: helpers where
  "exHelpers =
     \<lparr>descString = (\<lambda>name help labels.
        name @ ''|'' @ help @ ''|'' @ concat (map (\<lambda>(k, v). k @ ''='' @ v @ '';'') labels)),
      recoverMetricNameAndHelpFromDesc = (\<lambda>d.
        (takeWhile (\<lambda>c. c \<noteq> CHR ''|'') d,
         takeWhile (\<lambda>c. c \<noteq> CHR ''|'') (drop 1 (dropWhile (\<lambda>c. c \<noteq> CHR ''|'') d)))),
      getWorkflowPhaseGauges = [''Running'' \<mapsto> exPhaseRunning, ''Failed'' \<mapsto> exPhaseFailed],
      getErrorCounters =
        [ErrorCauseOperationPanic \<mapsto> exErrPanic,
         ErrorCauseCronWorkflowSubmissionError \<mapsto> exErrCron]\<rparr>"

definition exOrders :: orders where
  "exOrders =
     \<lparr>phaseOrder = [''Failed'', ''Running''],
      errorOrder = [ErrorCauseOperationPanic, ErrorCauseCronWorkflowSubmissionError],
      queueOrder = [], customOrder = []\<rparr>"

definition exInit :: Metrics where
  "exInit = New exHelpers exOrders 0"

definition exShadow :: instrument where
  "exShadow = \<lparr>ident = 100, kind = Counter,
     desc = ''workflows_processed_count|Number of workflow updates processed|'', buckets = []\<rparr>"

definition exShadowPhase :: instrument where
  "exShadowPhase = \<lparr>ident = 105, kind = Gauge,
     desc = ''count|Number of workflows by status|status=Running;'', buckets = []\<rparr>"

definition exClash :: instrument where
  "exClash = \<lparr>ident = 101, kind = Counter,
     desc = ''workflows_processed_count|My own count|'', buckets = []\<rparr>"

definition exGaugeA :: instrument where
  "exGaugeA = \<lparr>ident = 102, kind = Gauge, desc = ''duration|Duration of a run|'', buckets = []\<rparr>"

definition exGaugeB :: instrument where
  "exGaugeB = \<lparr>ident = 103, kind = Gauge, desc = ''duration|Seconds a run took|'', buckets = []\<rparr>"

definition exGaugeC :: instrument where
  "exGaugeC = \<lparr>ident = 104, kind = Gauge, desc = ''retries|Retries of a run|'', buckets = []\<rparr>"

text \<open>The states after some calls on the new registry.\<close>

definition exA1 :: Metrics where
  "exA1 = exec exHelpers (Upsert ''m1'' ''run-A'' (Some exGaugeA) True 1) exInit"

definition exA2 :: Metrics where
  "exA2 = exec exHelpers (Upsert ''m2'' ''run-A'' (Some exGaugeC) True 2) exA1"

definition exDup :: Metrics where
  "exDup = exec exHelpers (Upsert ''m1'' ''run-A'' (Some exGaugeA) True 2) exA1"

definition exOver :: Metrics where
  "exOver = exec exHelpers (Upsert ''m1'' ''run-A'' (Some exGaugeC) True 2) exA1"

definition exB1 :: Metrics where
  "exB1 = exec exHelpers (Upsert ''m1'' ''run-B'' (Some exGaugeA) True 2) exA1"

definition exB2 :: Metrics where
  "exB2 = exec exHelpers (Stop ''run-A'') exB1"

definition exC1 :: Metrics where
  "exC1 = exec exHelpers (Upsert ''m0'' ''run-A'' (Some exClash) True 1) exInit"

definition exC2 :: Metrics where
  "exC2 = exec exHelpers (Stop ''run-A'') exC1"

definition exStopped :: Metrics where
  "exStopped = exec exHelpers (Stop ''run-A'') exA1"

text \<open>
  A queue instrument, and iteration orders for the states that hold the entry \<open>m1\<close> and
  the depth instrument of the queue \<open>workflow\<close>.
\<close>

definition exDepth :: instrument where
  "exDepth = newGauge exHelpers ''queue_depth_count'' ''Depth of the queue''
     [(''queue_name'', ''workflow'')] 50"

definition exQ1 :: Metrics where
  "exQ1 = exec exHelpers (Depth ''workflow'' 50) exInit"

definition exQA :: Metrics where
  "exQA = exec exHelpers (Depth ''workflow'' 50) exA1"

definition exOrdersA :: orders where
  "exOrdersA = exOrders\<lparr>customOrder := [''m1'']\<rparr>"

definition exOrdersQ :: orders where
  "exOrdersQ = exOrders\<lparr>queueOrder := [''workflow-depth''], customOrder := [''m1'']\<rparr>"

definition exSnap :: Metrics where
  "exSnap = exec exHelpers (Snapshot exOrdersA) exA1"


section \<open>Properties of the operations\<close>

subsection \<open>Ranging over a map\<close>

lemma fold_delete:
  "fold (\<lambda>k cm. cm(k := None)) ks cm = (\<lambda>x. if x \<in> set ks then None else cm x)"
  by (induction ks arbitrary: cm) (auto simp: fun_eq_iff)

lemma set_map_filter_eq: "set (List.map_filter f xs) = {y. \<exists>x\<in>set xs. f x = Some y}"
  by (induction xs) (auto split: option.splits)

lemma set_rangeValues: "rangeOrder m ks \<Longrightarrow> set (rangeValues m ks) = ran m"
  by (auto simp: rangeOrder_def rangeValues_def set_map_filter_eq ran_def dom_def)

lemma rangeValues_empty [simp]: "rangeValues Map.empty ks = []"
  by (induction ks) (auto simp: rangeValues_def)

lemma set_allMetricsSeq:
  "validOrders ord m \<Longrightarrow>
   set (allMetricsSeq ord m)
     = builtinMetrics m \<union> ran (workqueueMetrics m) \<union> metric ` ran (customMetrics m)"
  by (auto simp: validOrders_def allMetricsSeq_def builtinMetrics_def set_rangeValues)

subsection \<open>UpsertCustomMetric, case by case\<close>

lemma upsert_collision:
  "defaultMetricDescs m (desc nm) \<noteq> None \<Longrightarrow>
   UpsertCustomMetric h key ownerKey (Some nm) realtime now m = (DescriptorCollision (desc nm), m)"
  by (simp add: UpsertCustomMetric_def)

lemma upsert_success:
  assumes "UpsertCustomMetric h key ownerKey newMetric realtime now m = (Success, m')"
  obtains nm name hlp where
    "newMetric = Some nm" "defaultMetricDescs m (desc nm) = None"
    "recoverMetricNameAndHelpFromDesc h (desc nm) = (name, hlp)"
    "metricNameHelps m name = None \<or> metricNameHelps m name = Some hlp"
    "m' = (if realtime
           then m\<lparr>metricNameHelps := (metricNameHelps m)(name \<mapsto> hlp),
                  customMetrics := (customMetrics m)(key \<mapsto> \<lparr>metric = nm, lastUpdated = now\<rparr>),
                  workflows := (workflows m)(ownerKey \<mapsto>
                     (case workflows m ownerKey of None \<Rightarrow> [] | Some ks \<Rightarrow> ks) @ [key])\<rparr>
           else m\<lparr>metricNameHelps := (metricNameHelps m)(name \<mapsto> hlp),
                  customMetrics := (customMetrics m)(key \<mapsto> \<lparr>metric = nm, lastUpdated = now\<rparr>)\<rparr>)"
  using assms
  by (auto simp: UpsertCustomMetric_def Let_def split: option.splits if_splits prod.splits)

lemma upsert_success_custom:
  "UpsertCustomMetric h key ownerKey newMetric realtime now m = (Success, m') \<Longrightarrow>
   \<exists>nm. newMetric = Some nm \<and>
     customMetrics m' = (customMetrics m)(key \<mapsto> \<lparr>metric = nm, lastUpdated = now\<rparr>)"
  by (erule upsert_success) (auto split: if_splits)

lemma upsert_success_workflows:
  "UpsertCustomMetric h key ownerKey newMetric realtime now m = (Success, m') \<Longrightarrow>
   workflows m' =
     (if realtime
      then (workflows m)(ownerKey \<mapsto>
             (case workflows m ownerKey of None \<Rightarrow> [] | Some ks \<Rightarrow> ks) @ [key])
      else workflows m)"
  by (erule upsert_success) (auto split: if_splits)

lemma upsert_success_help:
  "UpsertCustomMetric h key ownerKey (Some nm) realtime now m = (Success, m') \<Longrightarrow>
   recoverMetricNameAndHelpFromDesc h (desc nm) = (N, H) \<Longrightarrow> metricNameHelps m' N = Some H"
  by (erule upsert_success) (auto split: if_splits)

lemma upsert_failure_state:
  "fst (UpsertCustomMetric h key ownerKey newMetric realtime now m) \<noteq> Success \<Longrightarrow>
   snd (UpsertCustomMetric h key ownerKey newMetric realtime now m) = m"
  by (auto simp: UpsertCustomMetric_def Let_def split: option.splits if_splits prod.splits)

text \<open>The successful call, computed from the three facts that make it succeed.\<close>

lemma upsert_eval:
  assumes "defaultMetricDescs m (desc nm) = None"
    and "recoverMetricNameAndHelpFromDesc h (desc nm) = (name, hlp)"
    and "metricNameHelps m name = None \<or> metricNameHelps m name = Some hlp"
  shows "UpsertCustomMetric h key ownerKey (Some nm) realtime now m
           = (Success, exec h (Upsert key ownerKey (Some nm) realtime now) m)"
    and "customMetrics (exec h (Upsert key ownerKey (Some nm) realtime now) m)
           = (customMetrics m)(key \<mapsto> \<lparr>metric = nm, lastUpdated = now\<rparr>)"
    and "workflows (exec h (Upsert key ownerKey (Some nm) realtime now) m)
           = (if realtime
              then (workflows m)(ownerKey \<mapsto>
                     (case workflows m ownerKey of None \<Rightarrow> [] | Some ks \<Rightarrow> ks) @ [key])
              else workflows m)"
    and "metricNameHelps (exec h (Upsert key ownerKey (Some nm) realtime now) m)
           = (metricNameHelps m)(name \<mapsto> hlp)"
  using assms by (auto simp: UpsertCustomMetric_def Let_def)

subsection \<open>StopRealtimeMetricsForKey, case by case\<close>

lemma stop_absent: "workflows m key = None \<Longrightarrow> StopRealtimeMetricsForKey key m = m"
  by (simp add: StopRealtimeMetricsForKey_def)

lemma stop_present:
  "workflows m key = Some ks \<Longrightarrow>
   StopRealtimeMetricsForKey key m =
     m\<lparr>customMetrics := (\<lambda>x. if x \<in> set ks then None else customMetrics m x),
       workflows := (workflows m)(key := None)\<rparr>"
  by (simp add: StopRealtimeMetricsForKey_def fold_delete)

lemma stop_workflows_key: "workflows (StopRealtimeMetricsForKey key m) key = None"
  by (cases "workflows m key") (simp_all add: stop_absent stop_present)

lemma stop_idempotent:
  "StopRealtimeMetricsForKey key (StopRealtimeMetricsForKey key m) = StopRealtimeMetricsForKey key m"
  by (rule stop_absent) (rule stop_workflows_key)

subsection \<open>What no operation changes\<close>

lemmas op_defs = UpsertCustomMetric_def StopRealtimeMetricsForKey_def NewDepthMetric_def
  NewAddsMetric_def NewLatencyMetric_def allMetrics_def

lemma exec_static:
  "defaultMetricDescs (exec h x m) = defaultMetricDescs m"
  "workflowsByPhase (exec h x m) = workflowsByPhase m"
  "errors (exec h x m) = errors m"
  "workflowsProcessed (exec h x m) = workflowsProcessed m"
  "operationDurations (exec h x m) = operationDurations m"
  "podDeletionLatency (exec h x m) = podDeletionLatency m"
  "podGCAddedToQueue (exec h x m) = podGCAddedToQueue m"
  "podGCRemovedFromQueue (exec h x m) = podGCRemovedFromQueue m"
  "podInformerAddPod (exec h x m) = podInformerAddPod m"
  "podInformerUpdatePod (exec h x m) = podInformerUpdatePod m"
  "podInformerDeletePod (exec h x m) = podInformerDeletePod m"
  "processNextItemDuration (exec h x m) = processNextItemDuration m"
  "workflowQueueDepth (exec h x m) = workflowQueueDepth m"
  "podQueueDepth (exec h x m) = podQueueDepth m"
  "deadlineExceeded (exec h x m) = deadlineExceeded m"
  by (cases x; simp add: op_defs Let_def split: option.splits prod.splits)+

lemma exec_builtinMetrics: "builtinMetrics (exec h x m) = builtinMetrics m"
  by (simp add: builtinMetrics_def exec_static)

lemma exec_help_permanent:
  "metricNameHelps m N = Some H \<Longrightarrow> metricNameHelps (exec h x m) N = Some H"
  by (cases x; auto simp: op_defs Let_def split: option.splits prod.splits if_splits)

lemma run_help_permanent:
  "metricNameHelps m N = Some H \<Longrightarrow> metricNameHelps (run h ops m) N = Some H"
  by (induction ops arbitrary: m) (simp_all add: run_def exec_help_permanent)

lemma exec_workqueue_stable:
  "workqueueMetrics m key = Some g \<Longrightarrow> workqueueMetrics (exec h x m) key = Some g"
  by (cases x; auto simp: op_defs Let_def split: option.splits prod.splits)

lemma run_workqueue_stable:
  "workqueueMetrics m key = Some g \<Longrightarrow> workqueueMetrics (run h ops m) key = Some g"
  by (induction ops arbitrary: m) (simp_all add: run_def exec_workqueue_stable)

lemma exec_snapshots: "\<exists>ys. snapshots (exec h x m) = snapshots m @ ys"
  by (cases x; simp add: op_defs Let_def split: option.splits prod.splits)

lemma run_snapshots: "\<exists>ys. snapshots (run h ops m) = snapshots m @ ys"
proof (induction ops arbitrary: m)
  case Nil
  show ?case by (simp add: run_def)
next
  case (Cons x ops)
  obtain ys where 1: "snapshots (exec h x m) = snapshots m @ ys"
    using exec_snapshots by blast
  obtain zs where 2: "snapshots (run h ops (exec h x m)) = snapshots (exec h x m) @ zs"
    using Cons.IH by blast
  show ?case using 1 2 by (simp add: run_def)
qed

subsection \<open>The queue accessors, case by case\<close>

lemma depth_hit:
  "workqueueMetrics m (name @ ''-depth'') = Some g \<Longrightarrow> kind g = Gauge \<Longrightarrow>
   NewDepthMetric h name a m = (Some g, m)"
  by (simp add: NewDepthMetric_def typeAssert_def)

lemma adds_hit:
  "workqueueMetrics m (name @ ''-adds'') = Some g \<Longrightarrow> kind g = Counter \<Longrightarrow>
   NewAddsMetric h name a m = (Some g, m)"
  by (simp add: NewAddsMetric_def typeAssert_def)

lemma latency_hit:
  "workqueueMetrics m (name @ ''-latency'') = Some g \<Longrightarrow> kind g = Histogram \<Longrightarrow>
   NewLatencyMetric h name a m = (Some g, m)"
  by (simp add: NewLatencyMetric_def typeAssert_def)

lemma depth_miss:
  "workqueueMetrics m (name @ ''-depth'') = None \<Longrightarrow>
   NewDepthMetric h name a m =
     (Some (newGauge h ''queue_depth_count'' ''Depth of the queue'' [(''queue_name'', name)] a),
      m\<lparr>workqueueMetrics := (workqueueMetrics m)(name @ ''-depth'' \<mapsto>
           newGauge h ''queue_depth_count'' ''Depth of the queue'' [(''queue_name'', name)] a)\<rparr>)"
  by (simp add: NewDepthMetric_def typeAssert_def newGauge_def)

lemma adds_miss:
  "workqueueMetrics m (name @ ''-adds'') = None \<Longrightarrow>
   NewAddsMetric h name a m =
     (Some (newCounter h ''queue_adds_count'' ''Adds to the queue'' [(''queue_name'', name)] a),
      m\<lparr>workqueueMetrics := (workqueueMetrics m)(name @ ''-adds'' \<mapsto>
           newCounter h ''queue_adds_count'' ''Adds to the queue'' [(''queue_name'', name)] a)\<rparr>)"
  by (simp add: NewAddsMetric_def typeAssert_def newCounter_def)

lemma latency_miss:
  "workqueueMetrics m (name @ ''-latency'') = None \<Longrightarrow>
   NewLatencyMetric h name a m =
     (Some (newHistogram h ''queue_latency'' ''Time objects spend waiting in the queue''
              [(''queue_name'', name)] [1, 5, 20, 60, 180] a),
      m\<lparr>workqueueMetrics := (workqueueMetrics m)(name @ ''-latency'' \<mapsto>
           newHistogram h ''queue_latency'' ''Time objects spend waiting in the queue''
             [(''queue_name'', name)] [1, 5, 20, 60, 180] a)\<rparr>)"
  by (simp add: NewLatencyMetric_def typeAssert_def newHistogram_def)

lemma accessor_result_stored:
  "NewDepthMetric h name a m0 = (Some g, m1) \<Longrightarrow> workqueueMetrics m1 (name @ ''-depth'') = Some g"
  "NewAddsMetric h name a m0 = (Some g, m1) \<Longrightarrow> workqueueMetrics m1 (name @ ''-adds'') = Some g"
  "NewLatencyMetric h name a m0 = (Some g, m1) \<Longrightarrow> workqueueMetrics m1 (name @ ''-latency'') = Some g"
  by (auto simp: NewDepthMetric_def NewAddsMetric_def NewLatencyMetric_def typeAssert_def Let_def
      split: option.splits if_splits)

subsection \<open>The owner index under the exclusive discipline\<close>

lemma inv_upsert:
  assumes inv: "indexSound m \<and> indexDisjoint m"
    and g: "exclusive (Upsert key ownerKey newMetric realtime now) m"
  shows "indexSound (exec h (Upsert key ownerKey newMetric realtime now) m)
       \<and> indexDisjoint (exec h (Upsert key ownerKey newMetric realtime now) m)"
proof (cases "fst (UpsertCustomMetric h key ownerKey newMetric realtime now m) = Success")
  case False
  then show ?thesis using inv by (simp add: upsert_failure_state)
next
  case True
  define m' where "m' = snd (UpsertCustomMetric h key ownerKey newMetric realtime now m)"
  have u: "UpsertCustomMetric h key ownerKey newMetric realtime now m = (Success, m')"
    using True by (simp add: m'_def prod_eq_iff)
  obtain nm where c: "customMetrics m' = (customMetrics m)(key \<mapsto> \<lparr>metric = nm, lastUpdated = now\<rparr>)"
    using upsert_success_custom[OF u] by blast
  note w = upsert_success_workflows[OF u]
  have s: "indexSound m'"
    using inv w unfolding indexSound_def c
    by (auto split: if_splits option.splits)
  have d: "indexDisjoint m'"
  proof (cases realtime)
    case False
    then show ?thesis using inv w by (simp add: indexDisjoint_def)
  next
    case True
    with g have ex: "\<forall>owner ks. workflows m owner = Some ks \<longrightarrow> owner \<noteq> ownerKey \<longrightarrow> key \<notin> set ks"
      by simp
    show ?thesis
      unfolding indexDisjoint_def
    proof (intro allI impI)
      fix o1 o2 ks1 ks2
      assume a: "workflows m' o1 = Some ks1" "workflows m' o2 = Some ks2" "o1 \<noteq> o2"
      from inv have dj: "\<And>a b ka kb. workflows m a = Some ka \<Longrightarrow> workflows m b = Some kb \<Longrightarrow> a \<noteq> b
          \<Longrightarrow> set ka \<inter> set kb = {}"
        unfolding indexDisjoint_def by blast
      show "set ks1 \<inter> set ks2 = {}"
      proof (cases "o1 = ownerKey")
        case True
        then have o2: "o2 \<noteq> ownerKey" using a by simp
        then have k2: "workflows m o2 = Some ks2" using a w \<open>realtime\<close> by simp
        then have "key \<notin> set ks2" using ex o2 by blast
        moreover have "ks1 = (case workflows m ownerKey of None \<Rightarrow> [] | Some ks \<Rightarrow> ks) @ [key]"
          using a w \<open>realtime\<close> True by simp
        ultimately show ?thesis using dj[of ownerKey _ o2 ks2] k2 o2
          by (auto split: option.splits)
      next
        case False
        then have k1: "workflows m o1 = Some ks1" using a w \<open>realtime\<close> by simp
        show ?thesis
        proof (cases "o2 = ownerKey")
          case True
          have "key \<notin> set ks1" using ex k1 False by blast
          moreover have "ks2 = (case workflows m ownerKey of None \<Rightarrow> [] | Some ks \<Rightarrow> ks) @ [key]"
            using a w \<open>realtime\<close> True by simp
          ultimately show ?thesis using dj[of o1 ks1 ownerKey] k1 False
            by (auto split: option.splits)
        next
          case o2: False
          then have "workflows m o2 = Some ks2" using a w \<open>realtime\<close> by simp
          then show ?thesis using dj k1 a by blast
        qed
      qed
    qed
  qed
  show ?thesis using s d by (simp add: m'_def)
qed

lemma inv_stop:
  assumes inv: "indexSound m \<and> indexDisjoint m"
  shows "indexSound (StopRealtimeMetricsForKey key m) \<and> indexDisjoint (StopRealtimeMetricsForKey key m)"
proof (cases "workflows m key")
  case None
  then show ?thesis using inv by (simp add: stop_absent)
next
  case (Some ks)
  have "indexSound (StopRealtimeMetricsForKey key m)"
    unfolding indexSound_def
  proof (intro allI impI)
    fix owner ks' k
    assume a: "workflows (StopRealtimeMetricsForKey key m) owner = Some ks'" "k \<in> set ks'"
    then have o: "owner \<noteq> key" "workflows m owner = Some ks'"
      by (auto simp: stop_present[OF Some] split: if_splits)
    then have "set ks' \<inter> set ks = {}" using inv Some unfolding indexDisjoint_def by blast
    then have "k \<notin> set ks" using a by blast
    moreover have "customMetrics m k \<noteq> None" using inv o a unfolding indexSound_def by blast
    ultimately show "customMetrics (StopRealtimeMetricsForKey key m) k \<noteq> None"
      by (simp add: stop_present[OF Some])
  qed
  moreover have "indexDisjoint (StopRealtimeMetricsForKey key m)"
    using inv unfolding indexDisjoint_def
    by (auto simp: stop_present[OF Some] split: if_splits)
  ultimately show ?thesis by simp
qed

lemma inv_exec:
  assumes "indexSound m \<and> indexDisjoint m" "exclusive x m"
  shows "indexSound (exec h x m) \<and> indexDisjoint (exec h x m)"
proof (cases x)
  case (Upsert key ownerKey newMetric realtime now)
  then show ?thesis using inv_upsert assms by blast
next
  case (Stop key)
  then show ?thesis using inv_stop assms by simp
qed (use assms in \<open>simp_all add: indexSound_def indexDisjoint_def op_defs Let_def\<close>)

subsection \<open>The new registry\<close>

lemma literal_fields:
  "workflows (metricsLiteral h a) = Map.empty"
  "customMetrics (metricsLiteral h a) = Map.empty"
  "workqueueMetrics (metricsLiteral h a) = Map.empty"
  "metricNameHelps (metricsLiteral h a) = Map.empty"
  "defaultMetricDescs (metricsLiteral h a) = Map.empty"
  "workflowsByPhase (metricsLiteral h a) = getWorkflowPhaseGauges h"
  "errors (metricsLiteral h a) = getErrorCounters h"
  "snapshots (metricsLiteral h a) = []"
  by (simp_all add: metricsLiteral_def)

lemma New_eq:
  "New h ord a =
     (metricsLiteral h a)
       \<lparr>snapshots := [allMetricsSeq ord (metricsLiteral h a)],
        defaultMetricDescs :=
          fold (\<lambda>metric d. d(desc metric \<mapsto> True)) (allMetricsSeq ord (metricsLiteral h a)) Map.empty\<rparr>"
  by (simp add: New_def allMetrics_def Let_def literal_fields)

lemma New_fields:
  "workflows (New h ord a) = Map.empty"
  "customMetrics (New h ord a) = Map.empty"
  "workqueueMetrics (New h ord a) = Map.empty"
  "metricNameHelps (New h ord a) = Map.empty"
  "workflowsByPhase (New h ord a) = getWorkflowPhaseGauges h"
  "errors (New h ord a) = getErrorCounters h"
  by (simp_all add: New_eq literal_fields)

lemma New_builtinMetrics: "builtinMetrics (New h ord a) = builtinMetrics (metricsLiteral h a)"
  by (simp add: New_eq builtinMetrics_def)

lemma fold_descs:
  "fold (\<lambda>metric d. d(desc metric \<mapsto> True)) xs d0 k
     = (if k \<in> desc ` set xs then Some True else d0 k)"
  by (induction xs arbitrary: d0) auto

lemma set_allMetricsSeq_literal:
  assumes "rangeOrder (getWorkflowPhaseGauges h) (phaseOrder ord)"
    and "rangeOrder (getErrorCounters h) (errorOrder ord)"
  shows "set (allMetricsSeq ord (metricsLiteral h a)) = builtinMetrics (metricsLiteral h a)"
  using assms
  by (simp add: allMetricsSeq_def builtinMetrics_def literal_fields set_rangeValues Un_assoc)

lemma New_defaultMetricDescs:
  assumes "rangeOrder (getWorkflowPhaseGauges h) (phaseOrder ord)"
    and "rangeOrder (getErrorCounters h) (errorOrder ord)"
  shows "defaultMetricDescs (New h ord a) d
     = (if d \<in> desc ` builtinMetrics (New h ord a) then Some True else None)"
proof -
  have "defaultMetricDescs (New h ord a) d
      = (if d \<in> desc ` set (allMetricsSeq ord (metricsLiteral h a)) then Some True else None)"
    unfolding New_eq by (simp add: fold_descs)
  then show ?thesis
    by (simp only: set_allMetricsSeq_literal[OF assms] New_builtinMetrics)
qed

lemma reachable_builtin_descs:
  "reachable h G m \<Longrightarrow> b \<in> builtinMetrics m \<Longrightarrow> defaultMetricDescs m (desc b) = Some True"
proof (induction rule: reachable.induct)
  case (init ord a)
  then show ?case by (simp add: New_defaultMetricDescs)
next
  case (step m x)
  then show ?case by (simp add: exec_builtinMetrics exec_static)
qed

subsection \<open>The type assertions of the queue accessors\<close>

text \<open>
  The type assertions of the accessors never fail in a state the registry can reach: the
  three key suffixes differ, so an accessor only ever finds an instrument of its own kind.
\<close>

lemma suffixes_differ:
  "n1 @ ''-depth'' \<noteq> n2 @ ''-adds''" "n1 @ ''-depth'' \<noteq> n2 @ ''-latency''"
  "n1 @ ''-adds'' \<noteq> n2 @ ''-latency''"
  "n2 @ ''-adds'' \<noteq> n1 @ ''-depth''" "n2 @ ''-latency'' \<noteq> n1 @ ''-depth''"
  "n2 @ ''-latency'' \<noteq> n1 @ ''-adds''"
  by (auto dest: arg_cong[where f = last])

lemma exec_queueKinds: "queueKinds m \<Longrightarrow> queueKinds (exec h x m)"
proof (cases x)
  case (Depth name a)
  assume "queueKinds m"
  then show ?thesis
    unfolding queueKinds_def Depth
    by (auto simp: NewDepthMetric_def Let_def newGauge_def suffixes_differ)
next
  case (Adds name a)
  assume "queueKinds m"
  then show ?thesis
    unfolding queueKinds_def Adds
    by (auto simp: NewAddsMetric_def Let_def newCounter_def suffixes_differ)
next
  case (Latency name a)
  assume "queueKinds m"
  then show ?thesis
    unfolding queueKinds_def Latency
    by (auto simp: NewLatencyMetric_def Let_def newHistogram_def suffixes_differ)
next
  case (Upsert key ownerKey newMetric realtime now)
  assume "queueKinds m"
  then show ?thesis
    unfolding queueKinds_def Upsert
    by (simp add: UpsertCustomMetric_def Let_def split: option.splits prod.splits)
next
  case (Stop key)
  assume "queueKinds m"
  then show ?thesis
    unfolding queueKinds_def Stop
    by (simp add: StopRealtimeMetricsForKey_def split: option.splits)
next
  case (Snapshot ord)
  assume "queueKinds m"
  then show ?thesis
    unfolding queueKinds_def Snapshot by (simp add: allMetrics_def)
qed

lemma reachable_queueKinds: "reachable h G m \<Longrightarrow> queueKinds m"
proof (induction rule: reachable.induct)
  case (init ord a)
  show ?case by (simp add: queueKinds_def New_fields)
next
  case (step m x)
  then show ?case by (simp add: exec_queueKinds)
qed

lemma accessors_never_panic:
  assumes "reachable h G m"
  shows "fst (NewDepthMetric h name a m) \<noteq> None"
    and "fst (NewAddsMetric h name a m) \<noteq> None"
    and "fst (NewLatencyMetric h name a m) \<noteq> None"
  using reachable_queueKinds[OF assms]
  unfolding queueKinds_def
  by (auto simp: NewDepthMetric_def NewAddsMetric_def NewLatencyMetric_def Let_def typeAssert_def
      newGauge_def newCounter_def newHistogram_def split: option.splits)

subsection \<open>The concrete registry, evaluated\<close>

lemma ran_two: "a \<noteq> b \<Longrightarrow> ran [a \<mapsto> x, b \<mapsto> y] = {x, y}"
  by (auto simp: ran_def)

lemma exHelpers_maps:
  "getWorkflowPhaseGauges exHelpers = [''Running'' \<mapsto> exPhaseRunning, ''Failed'' \<mapsto> exPhaseFailed]"
  "getErrorCounters exHelpers =
     [''OperationPanic'' \<mapsto> exErrPanic, ''CronWorkflowSubmissionError'' \<mapsto> exErrCron]"
  by (simp_all add: exHelpers_def ErrorCauseOperationPanic_def
      ErrorCauseCronWorkflowSubmissionError_def)

lemma exOrders_fields:
  "phaseOrder exOrders = [''Failed'', ''Running'']"
  "errorOrder exOrders = [''OperationPanic'', ''CronWorkflowSubmissionError'']"
  "queueOrder exOrders = []" "customOrder exOrders = []"
  by (simp_all add: exOrders_def ErrorCauseOperationPanic_def
      ErrorCauseCronWorkflowSubmissionError_def)

lemma exOrders_range:
  "rangeOrder (getWorkflowPhaseGauges exHelpers) (phaseOrder exOrders)"
  "rangeOrder (getErrorCounters exHelpers) (errorOrder exOrders)"
  by (auto simp: rangeOrder_def exHelpers_maps exOrders_fields)

lemma exInit_reachable: "reachable exHelpers G exInit"
  unfolding exInit_def by (rule reachable.init) (rule exOrders_range)+

lemma exInit_maps:
  "workflows exInit = Map.empty" "customMetrics exInit = Map.empty"
  "workqueueMetrics exInit = Map.empty" "metricNameHelps exInit = Map.empty"
  "workflowsByPhase exInit = [''Running'' \<mapsto> exPhaseRunning, ''Failed'' \<mapsto> exPhaseFailed]"
  "errors exInit = [''OperationPanic'' \<mapsto> exErrPanic, ''CronWorkflowSubmissionError'' \<mapsto> exErrCron]"
  by (simp_all add: exInit_def New_fields exHelpers_maps)

lemma exInit_builtin_descs:
  "desc ` builtinMetrics exInit =
    {''workflows_processed_count|Number of workflow updates processed|'',
     ''operation_duration_seconds|Histogram of durations of operations|'',
     ''wcustom_pod_deletion_latency|Latency for pod deletion (ms)|'',
     ''wcustom_pod_gc_added_to_queue|Pod GC requests added to queue|'',
     ''wcustom_pod_gc_removed_from_queue|Pod GC requests removed from queue|'',
     ''wcustom_pod_informer_add_pod|Pod informer notified that a pod was added|'',
     ''wcustom_pod_informer_update_pod|Pod informer notified that a pod was updated|'',
     ''wcustom_pod_informer_delete_pod|Pod informer notified that a pod was deleted|'',
     ''wcustom_process_next_item_duration|Latency for processNextItem (ms)|'',
     ''wcustom_workflow_queue_depth|Depth of workflow queue|'',
     ''wcustom_pod_queue_depth|Depth of pod queue|'',
     ''wcustom_deadline_exceeded|Deadline exceeded|'',
     ''count|Number of workflows by status|status=Running;'',
     ''count|Number of workflows by status|status=Failed;'',
     ''error_count|Number of errors by cause|cause=OperationPanic;'',
     ''error_count|Number of errors by cause|cause=CronWorkflowSubmissionError;''}"
proof -
  have "builtinMetrics exInit =
     {workflowsProcessed exInit, operationDurations exInit, podDeletionLatency exInit,
      podGCAddedToQueue exInit, podGCRemovedFromQueue exInit, podInformerAddPod exInit,
      podInformerUpdatePod exInit, podInformerDeletePod exInit, processNextItemDuration exInit,
      workflowQueueDepth exInit, podQueueDepth exInit, deadlineExceeded exInit,
      exPhaseRunning, exPhaseFailed, exErrPanic, exErrCron}"
    by (auto simp: builtinMetrics_def exInit_maps ran_two)
  then show ?thesis
    by (simp add: exInit_def New_eq metricsLiteral_def exHelpers_def newCounter_def newGauge_def
        newHistogram_def exPhaseRunning_def exPhaseFailed_def exErrPanic_def exErrCron_def)
qed

lemma exInit_defaultMetricDescs:
  "defaultMetricDescs exInit d = (if d \<in> desc ` builtinMetrics exInit then Some True else None)"
  unfolding exInit_def
  by (rule New_defaultMetricDescs) (rule exOrders_range)+

lemma ex_descs:
  "defaultMetricDescs exInit (desc exGaugeA) = None"
  "defaultMetricDescs exInit (desc exGaugeB) = None"
  "defaultMetricDescs exInit (desc exGaugeC) = None"
  "defaultMetricDescs exInit (desc exClash) = None"
  "defaultMetricDescs exInit (desc exShadow) = Some True"
  "defaultMetricDescs exInit (desc exShadowPhase) = Some True"
  by (simp_all add: exInit_defaultMetricDescs exInit_builtin_descs exGaugeA_def exGaugeB_def
      exGaugeC_def exClash_def exShadow_def exShadowPhase_def)

lemma ex_recover:
  "recoverMetricNameAndHelpFromDesc exHelpers (desc exGaugeA) = (''duration'', ''Duration of a run'')"
  "recoverMetricNameAndHelpFromDesc exHelpers (desc exGaugeB) = (''duration'', ''Seconds a run took'')"
  "recoverMetricNameAndHelpFromDesc exHelpers (desc exGaugeC) = (''retries'', ''Retries of a run'')"
  "recoverMetricNameAndHelpFromDesc exHelpers (desc exClash) = (''workflows_processed_count'', ''My own count'')"
  "recoverMetricNameAndHelpFromDesc exHelpers (desc exShadow)
     = (''workflows_processed_count'', ''Number of workflow updates processed'')"
  by (simp_all add: exHelpers_def exGaugeA_def exGaugeB_def exGaugeC_def exClash_def exShadow_def)

lemma exec_descs: "defaultMetricDescs (exec h x m) d = defaultMetricDescs m d"
  by (simp add: exec_static)

lemma exA1_eval:
  "UpsertCustomMetric exHelpers ''m1'' ''run-A'' (Some exGaugeA) True 1 exInit = (Success, exA1)"
  "customMetrics exA1 = [''m1'' \<mapsto> \<lparr>metric = exGaugeA, lastUpdated = 1\<rparr>]"
  "workflows exA1 = [''run-A'' \<mapsto> [''m1'']]"
  "metricNameHelps exA1 = [''duration'' \<mapsto> ''Duration of a run'']"
  "defaultMetricDescs exA1 d = defaultMetricDescs exInit d"
  unfolding exA1_def
  using upsert_eval[OF ex_descs(1) ex_recover(1), of "''m1''" "''run-A''" True 1]
  by (simp_all del: exec.simps add: exInit_maps exec_static)

lemma exA2_eval:
  "UpsertCustomMetric exHelpers ''m2'' ''run-A'' (Some exGaugeC) True 2 exA1 = (Success, exA2)"
  "customMetrics exA2 = [''m1'' \<mapsto> \<lparr>metric = exGaugeA, lastUpdated = 1\<rparr>,
                         ''m2'' \<mapsto> \<lparr>metric = exGaugeC, lastUpdated = 2\<rparr>]"
  "workflows exA2 = [''run-A'' \<mapsto> [''m1'', ''m2'']]"
  unfolding exA2_def
  using upsert_eval[of exA1 exGaugeC exHelpers "''retries''" "''Retries of a run''" "''m2''" "''run-A''" True 2]
  by (simp_all del: exec.simps add: exA1_eval ex_descs ex_recover)

lemma exDup_eval:
  "UpsertCustomMetric exHelpers ''m1'' ''run-A'' (Some exGaugeA) True 2 exA1 = (Success, exDup)"
  "workflows exDup = [''run-A'' \<mapsto> [''m1'', ''m1'']]"
  "customMetrics exDup = [''m1'' \<mapsto> \<lparr>metric = exGaugeA, lastUpdated = 2\<rparr>]"
  unfolding exDup_def
  using upsert_eval[of exA1 exGaugeA exHelpers "''duration''" "''Duration of a run''" "''m1''" "''run-A''" True 2]
  by (simp_all del: exec.simps add: exA1_eval ex_descs ex_recover)

lemma exOver_eval:
  "UpsertCustomMetric exHelpers ''m1'' ''run-A'' (Some exGaugeC) True 2 exA1 = (Success, exOver)"
  "customMetrics exOver = [''m1'' \<mapsto> \<lparr>metric = exGaugeC, lastUpdated = 2\<rparr>]"
  unfolding exOver_def
  using upsert_eval[of exA1 exGaugeC exHelpers "''retries''" "''Retries of a run''" "''m1''" "''run-A''" True 2]
  by (simp_all del: exec.simps add: exA1_eval ex_descs ex_recover)

lemma exB1_eval:
  "UpsertCustomMetric exHelpers ''m1'' ''run-B'' (Some exGaugeA) True 2 exA1 = (Success, exB1)"
  "workflows exB1 = [''run-A'' \<mapsto> [''m1''], ''run-B'' \<mapsto> [''m1'']]"
  "customMetrics exB1 = [''m1'' \<mapsto> \<lparr>metric = exGaugeA, lastUpdated = 2\<rparr>]"
  unfolding exB1_def
  using upsert_eval[of exA1 exGaugeA exHelpers "''duration''" "''Duration of a run''" "''m1''" "''run-B''" True 2]
  by (simp_all del: exec.simps add: exA1_eval ex_descs ex_recover)

lemma exB2_eval:
  "workflows exB2 ''run-B'' = Some [''m1'']"
  "workflows exB2 ''run-A'' = None"
  "customMetrics exB2 ''m1'' = None"
  unfolding exB2_def
  by (simp_all add: stop_present[of exB1 "''run-A''" "[''m1'']"] exB1_eval)

lemma exC1_eval:
  "UpsertCustomMetric exHelpers ''m0'' ''run-A'' (Some exClash) True 1 exInit = (Success, exC1)"
  "customMetrics exC1 = [''m0'' \<mapsto> \<lparr>metric = exClash, lastUpdated = 1\<rparr>]"
  "workflows exC1 = [''run-A'' \<mapsto> [''m0'']]"
  "metricNameHelps exC1 = [''workflows_processed_count'' \<mapsto> ''My own count'']"
  "defaultMetricDescs exC1 d = defaultMetricDescs exInit d"
  unfolding exC1_def
  using upsert_eval[OF ex_descs(4) ex_recover(4), of "''m0''" "''run-A''" True 1]
  by (simp_all del: exec.simps add: exInit_maps exec_static)

lemma exC2_eval:
  "exC2 = StopRealtimeMetricsForKey ''run-A'' exC1"
  "dom (customMetrics exC2) = {}"
  "dom (workflows exC2) = {}"
  "metricNameHelps exC2 ''workflows_processed_count'' = Some ''My own count''"
  "defaultMetricDescs exC2 d = defaultMetricDescs exInit d"
  unfolding exC2_def
  by (simp_all add: stop_present[of exC1 "''run-A''" "[''m0'']"] exC1_eval fun_eq_iff)

lemma exStopped_eval:
  "exStopped = StopRealtimeMetricsForKey ''run-A'' exA1"
  "dom (customMetrics exStopped) = {}"
  "dom (workflows exStopped) = {}"
  "metricNameHelps exStopped ''duration'' = Some ''Duration of a run''"
  "defaultMetricDescs exStopped d = defaultMetricDescs exInit d"
  unfolding exStopped_def
  by (simp_all add: stop_present[of exA1 "''run-A''" "[''m1'']"] exA1_eval fun_eq_iff)

lemma exShadow_desc: "desc exShadow = desc (workflowsProcessed exInit)"
  by (simp add: exShadow_def exInit_def New_eq metricsLiteral_def newCounter_def exHelpers_def)

lemma exC1_reachable: "reachable exHelpers unrestricted exC1"
  unfolding exC1_def
  by (rule reachable.step[OF exInit_reachable]) (simp_all add: unrestricted_def)

lemma exA1_exclusive: "reachable exHelpers exclusive exA1"
  unfolding exA1_def
  by (rule reachable.step[OF exInit_reachable]) (simp_all add: exInit_maps)

lemma exA2_exclusive: "reachable exHelpers exclusive exA2"
  unfolding exA2_def
  by (rule reachable.step[OF exA1_exclusive]) (simp_all add: exA1_eval)

lemma exB2_reachable: "reachable exHelpers unrestricted exB2"
proof -
  have 1: "reachable exHelpers unrestricted exA1"
    unfolding exA1_def
    by (rule reachable.step[OF exInit_reachable]) (simp_all add: unrestricted_def)
  have 2: "reachable exHelpers unrestricted exB1"
    unfolding exB1_def
    by (rule reachable.step[OF 1]) (simp_all add: unrestricted_def)
  show ?thesis
    unfolding exB2_def
    by (rule reachable.step[OF 2]) (simp_all add: unrestricted_def)
qed

lemma exA1_snapshots: "length (snapshots exA1) = 1"
  by (simp add: exA1_def exInit_def New_eq UpsertCustomMetric_def Let_def
      split: option.splits prod.splits)

lemma exA1_static:
  "workflowsByPhase exA1 = [''Running'' \<mapsto> exPhaseRunning, ''Failed'' \<mapsto> exPhaseFailed]"
  "errors exA1 = [''OperationPanic'' \<mapsto> exErrPanic, ''CronWorkflowSubmissionError'' \<mapsto> exErrCron]"
  "workqueueMetrics exA1 = Map.empty"
  unfolding exA1_def
  by (simp_all del: exec.simps add: exec_static exInit_maps)
    (simp add: UpsertCustomMetric_def Let_def exInit_maps split: option.splits prod.splits)

lemma exA1_seq: "allMetricsSeq exOrdersA exA1 =
  [workflowsProcessed exA1, operationDurations exA1, podDeletionLatency exA1,
   podGCAddedToQueue exA1, podGCRemovedFromQueue exA1, podInformerAddPod exA1,
   podInformerUpdatePod exA1, podInformerDeletePod exA1, processNextItemDuration exA1,
   workflowQueueDepth exA1, podQueueDepth exA1, deadlineExceeded exA1,
   exPhaseFailed, exPhaseRunning, exErrPanic, exErrCron, exGaugeA]"
  by (simp add: allMetricsSeq_def exOrdersA_def exOrders_fields exA1_static exA1_eval
      rangeValues_def)

lemma exQ1_eval:
  "NewDepthMetric exHelpers ''workflow'' 50 exInit = (Some exDepth, exQ1)"
  "workqueueMetrics exQ1 = [''workflow-depth'' \<mapsto> exDepth]"
  using depth_miss[of exInit "''workflow''" exHelpers 50]
  by (simp_all add: exQ1_def exDepth_def exInit_maps)

lemma exQA_eval:
  "NewDepthMetric exHelpers ''workflow'' 50 exA1 = (Some exDepth, exQA)"
  "workqueueMetrics exQA = [''workflow-depth'' \<mapsto> exDepth]"
  "customMetrics exQA = customMetrics exA1"
  "workflowsByPhase exQA = [''Running'' \<mapsto> exPhaseRunning, ''Failed'' \<mapsto> exPhaseFailed]"
  "errors exQA = [''OperationPanic'' \<mapsto> exErrPanic, ''CronWorkflowSubmissionError'' \<mapsto> exErrCron]"
  using depth_miss[of exA1 "''workflow''" exHelpers 50]
  by (simp_all add: exQA_def exDepth_def exA1_static)

lemma exQA_valid: "validOrders exOrdersQ exQA"
  by (auto simp: validOrders_def rangeOrder_def exOrdersQ_def exOrders_fields exQA_eval exA1_eval)

section \<open>The claims\<close>

text \<open>
  C1. For every built-in instrument descriptor and every registry state, a call of
  \<open>UpsertCustomMetric\<close> with an instrument whose descriptor text equals that descriptor
  returns the descriptor collision error and leaves the whole state as it was. The
  statement has two parts: the first is about every state and every descriptor that is
  a key of \<open>defaultMetricDescs\<close>, the table the code consults; the second is about every
  state the registry can reach from \<open>New\<close> and the descriptor of every instrument built
  by the constructor (the twelve instrument fields, the gauges per phase and the counters
  per error cause).
\<close>

theorem upsert_builtin_descriptor_collision:
  "(defaultMetricDescs m (desc nm) \<noteq> None \<longrightarrow>
      UpsertCustomMetric h key ownerKey (Some nm) realtime now m
        = (DescriptorCollision (desc nm), m))
   \<and> (reachable h G m \<longrightarrow> b \<in> builtinMetrics m \<longrightarrow> desc nm = desc b \<longrightarrow>
      UpsertCustomMetric h key ownerKey (Some nm) realtime now m
        = (DescriptorCollision (desc nm), m))"
  using reachable_builtin_descs[of h G m b] by (simp add: upsert_collision)

theorem upsert_builtin_descriptor_collision_witness:
  "reachable exHelpers unrestricted exInit
   \<and> workflowsProcessed exInit \<in> builtinMetrics exInit
   \<and> desc exShadow = desc (workflowsProcessed exInit)
   \<and> UpsertCustomMetric exHelpers ''m1'' ''run-A'' (Some exShadow) True 1 exInit
        = (DescriptorCollision (desc exShadow), exInit)
   \<and> exPhaseRunning \<in> builtinMetrics exInit
   \<and> desc exShadowPhase = desc exPhaseRunning
   \<and> UpsertCustomMetric exHelpers ''m1'' ''run-A'' (Some exShadowPhase) False 1 exInit
        = (DescriptorCollision (desc exShadowPhase), exInit)"
proof -
  have r: "reachable exHelpers unrestricted exInit" by (rule exInit_reachable)
  have bp: "exPhaseRunning \<in> builtinMetrics exInit"
    by (simp add: builtinMetrics_def exInit_maps ran_two)
  have dp: "desc exShadowPhase = desc exPhaseRunning"
    by (simp add: exShadowPhase_def exPhaseRunning_def)
  have up: "UpsertCustomMetric exHelpers ''m1'' ''run-A'' (Some exShadowPhase) False 1 exInit
        = (DescriptorCollision (desc exShadowPhase), exInit)"
    using upsert_builtin_descriptor_collision[of exInit exShadowPhase exHelpers "''m1''" "''run-A''"
        False 1 unrestricted exPhaseRunning] r bp dp
    by blast
  have b: "workflowsProcessed exInit \<in> builtinMetrics exInit" by (simp add: builtinMetrics_def)
  have "UpsertCustomMetric exHelpers ''m1'' ''run-A'' (Some exShadow) True 1 exInit
        = (DescriptorCollision (desc exShadow), exInit)"
    using upsert_builtin_descriptor_collision[of exInit exShadow exHelpers "''m1''" "''run-A''" True 1
        unrestricted "workflowsProcessed exInit"] r b exShadow_desc
    by blast
  with r b exShadow_desc bp dp up show ?thesis by blast
qed

text \<open>
  C2, as amended. In a state in which the name \<open>N\<close> is registered with the help text \<open>H1\<close>,
  a call of \<open>UpsertCustomMetric\<close> whose instrument has the name \<open>N\<close> and a help text
  \<open>H2\<close> other than \<open>H1\<close> fails and leaves the whole state as it was. The error is the
  help text mismatch when the descriptor of the instrument is not a built-in one; when
  it is, the check of the descriptor comes first and the error is the descriptor
  collision.
\<close>

theorem upsert_help_mismatch:
  assumes "metricNameHelps m N = Some H1"
    and "recoverMetricNameAndHelpFromDesc h (desc nm) = (N, H2)"
    and "H2 \<noteq> H1"
  shows "UpsertCustomMetric h key ownerKey (Some nm) realtime now m
     = (if defaultMetricDescs m (desc nm) = None then HelpTextMismatch N H2 H1
        else DescriptorCollision (desc nm), m)"
  using assms by (simp add: UpsertCustomMetric_def)

theorem upsert_help_mismatch_witness:
  "metricNameHelps exA1 ''duration'' = Some ''Duration of a run''
   \<and> recoverMetricNameAndHelpFromDesc exHelpers (desc exGaugeB) = (''duration'', ''Seconds a run took'')
   \<and> ''Seconds a run took'' \<noteq> ''Duration of a run''
   \<and> defaultMetricDescs exA1 (desc exGaugeB) = None
   \<and> UpsertCustomMetric exHelpers ''m2'' ''run-A'' (Some exGaugeB) True 2 exA1
        = (HelpTextMismatch ''duration'' ''Seconds a run took'' ''Duration of a run'', exA1)"
proof -
  have 1: "metricNameHelps exA1 ''duration'' = Some ''Duration of a run''"
    by (simp add: exA1_eval)
  have 2: "''Seconds a run took'' \<noteq> ''Duration of a run''" by simp
  have 3: "defaultMetricDescs exA1 (desc exGaugeB) = None" by (simp add: exA1_eval ex_descs)
  show ?thesis
    using upsert_help_mismatch[OF 1 ex_recover(2) 2, of "''m2''" "''run-A''" True 2] 1 2 3 ex_recover(2)
    by simp
qed

text \<open>
  The claim as it was stated fails on this call: the name of the built-in counter is
  registered with a help text of its own, and the instrument with the descriptor of the
  built-in counter has that name and another help text, but the call returns the
  descriptor collision.
\<close>

theorem upsert_help_mismatch_counterexample:
  "reachable exHelpers unrestricted exC1
   \<and> metricNameHelps exC1 ''workflows_processed_count'' = Some ''My own count''
   \<and> recoverMetricNameAndHelpFromDesc exHelpers (desc exShadow)
        = (''workflows_processed_count'', ''Number of workflow updates processed'')
   \<and> ''Number of workflow updates processed'' \<noteq> ''My own count''
   \<and> UpsertCustomMetric exHelpers ''m1'' ''run-A'' (Some exShadow) True 2 exC1
        = (DescriptorCollision (desc exShadow), exC1)
   \<and> fst (UpsertCustomMetric exHelpers ''m1'' ''run-A'' (Some exShadow) True 2 exC1)
        \<noteq> HelpTextMismatch ''workflows_processed_count'' ''Number of workflow updates processed''
             ''My own count''"
proof -
  have "defaultMetricDescs exC1 (desc exShadow) \<noteq> None" by (simp add: exC1_eval ex_descs)
  then have "UpsertCustomMetric exHelpers ''m1'' ''run-A'' (Some exShadow) True 2 exC1
        = (DescriptorCollision (desc exShadow), exC1)"
    by (rule upsert_collision)
  then show ?thesis
    using exC1_reachable by (simp add: exC1_eval ex_recover)
qed

text \<open>
  C3. After two successful realtime upserts under one owner (in the claim the keys
  \<open>m1\<close> and \<open>m2\<close> and the owner \<open>run-A\<close>), starting from any state,
  \<open>StopRealtimeMetricsForKey\<close> for that owner makes \<open>GetCustomMetric\<close> return nil for both
  keys, and a second \<open>StopRealtimeMetricsForKey\<close> for the owner returns the state it was
  given. The operation has no error result and no statement that can panic.
\<close>

theorem owner_lifecycle:
  assumes u1: "UpsertCustomMetric h k1 owner nm1 True t1 m = (Success, m1)"
    and u2: "UpsertCustomMetric h k2 owner nm2 True t2 m1 = (Success, m2)"
  shows "GetCustomMetric k1 (StopRealtimeMetricsForKey owner m2) = None
       \<and> GetCustomMetric k2 (StopRealtimeMetricsForKey owner m2) = None
       \<and> StopRealtimeMetricsForKey owner (StopRealtimeMetricsForKey owner m2)
           = StopRealtimeMetricsForKey owner m2"
proof -
  define ks0 where "ks0 = (case workflows m owner of None \<Rightarrow> [] | Some ks \<Rightarrow> ks)"
  have w1: "workflows m1 owner = Some (ks0 @ [k1])"
    using upsert_success_workflows[OF u1] by (simp add: ks0_def)
  have w2: "workflows m2 owner = Some (ks0 @ [k1, k2])"
    using upsert_success_workflows[OF u2] w1 by simp
  have c: "customMetrics (StopRealtimeMetricsForKey owner m2)
      = (\<lambda>x. if x \<in> set (ks0 @ [k1, k2]) then None else customMetrics m2 x)"
    by (simp add: stop_present[OF w2])
  show ?thesis
    by (simp add: GetCustomMetric_def c stop_idempotent)
qed

theorem owner_lifecycle_witness:
  "UpsertCustomMetric exHelpers ''m1'' ''run-A'' (Some exGaugeA) True 1 exInit = (Success, exA1)
   \<and> UpsertCustomMetric exHelpers ''m2'' ''run-A'' (Some exGaugeC) True 2 exA1 = (Success, exA2)
   \<and> GetCustomMetric ''m1'' exA2 = Some exGaugeA
   \<and> GetCustomMetric ''m2'' exA2 = Some exGaugeC
   \<and> GetCustomMetric ''m1'' (StopRealtimeMetricsForKey ''run-A'' exA2) = None
   \<and> GetCustomMetric ''m2'' (StopRealtimeMetricsForKey ''run-A'' exA2) = None
   \<and> StopRealtimeMetricsForKey ''run-A'' (StopRealtimeMetricsForKey ''run-A'' exA2)
        = StopRealtimeMetricsForKey ''run-A'' exA2"
proof -
  have g: "GetCustomMetric ''m1'' exA2 = Some exGaugeA" "GetCustomMetric ''m2'' exA2 = Some exGaugeC"
    by (simp_all add: GetCustomMetric_def exA2_eval)
  show ?thesis
    using owner_lifecycle[OF exA1_eval(1) exA2_eval(1)] exA1_eval(1) exA2_eval(1) g
    by simp
qed

text \<open>
  C4, as amended. In every state reachable from the new registry by calls in which no
  realtime upsert uses a key that is at that moment listed in the index of another
  owner, every key listed in the index of an owner is a key of the entry map.
\<close>

theorem index_keys_registered:
  assumes "reachable h exclusive m"
    and "workflows m owner = Some ks"
    and "k \<in> set ks"
  shows "customMetrics m k \<noteq> None"
proof -
  have "indexSound m \<and> indexDisjoint m"
    using assms(1)
  proof (induction rule: reachable.induct)
    case (init ord a)
    show ?case by (simp add: indexSound_def indexDisjoint_def New_fields)
  next
    case (step m x)
    then show ?case using inv_exec by blast
  qed
  then show ?thesis using assms(2,3) unfolding indexSound_def by blast
qed

theorem index_keys_registered_witness:
  "reachable exHelpers exclusive exA2
   \<and> workflows exA2 ''run-A'' = Some [''m1'', ''m2'']
   \<and> ''m2'' \<in> set [''m1'', ''m2'']
   \<and> customMetrics exA2 ''m2'' \<noteq> None"
proof -
  have w: "workflows exA2 ''run-A'' = Some [''m1'', ''m2'']" by (simp add: exA2_eval)
  have k: "''m2'' \<in> set [''m1'', ''m2'']" by simp
  show ?thesis
    using index_keys_registered[OF exA2_exclusive w k] exA2_exclusive w k by simp
qed

text \<open>
  The claim as it was stated, for every sequence of calls, fails: the same key is
  registered as realtime under two owners, and stopping the first owner deletes the
  entry while the index of the second owner still lists the key.
\<close>

theorem index_keys_registered_counterexample:
  "reachable exHelpers unrestricted exB2
   \<and> exB2 = run exHelpers
        [Upsert ''m1'' ''run-A'' (Some exGaugeA) True 1, Upsert ''m1'' ''run-B'' (Some exGaugeA) True 2,
         Stop ''run-A''] exInit
   \<and> workflows exB2 ''run-B'' = Some [''m1'']
   \<and> ''m1'' \<in> set [''m1'']
   \<and> customMetrics exB2 ''m1'' = None
   \<and> \<not> indexSound exB2"
proof -
  have e: "exB2 = run exHelpers
        [Upsert ''m1'' ''run-A'' (Some exGaugeA) True 1, Upsert ''m1'' ''run-B'' (Some exGaugeA) True 2,
         Stop ''run-A''] exInit"
    by (simp add: run_def exB2_def exB1_def exA1_def)
  have k: "''m1'' \<in> set [''m1'']" by simp
  have n: "\<not> indexSound exB2"
    unfolding indexSound_def using exB2_eval(1) exB2_eval(3) k by blast
  show ?thesis
    by (intro conjI) (rule exB2_reachable e exB2_eval(1) k exB2_eval(3) n)+
qed

text \<open>
  C5, as amended. After a successful realtime upsert of the key \<open>k\<close> for the owner \<open>o\<close>,
  the index list of \<open>o\<close> is the list it was before (the empty list when there was none)
  with \<open>k\<close> appended: \<open>k\<close> occurs in it once more than before.
\<close>

theorem upsert_index_append:
  assumes "UpsertCustomMetric h k owner newMetric True now m = (Success, m')"
  shows "\<exists>ks'. workflows m' owner = Some ks'
      \<and> ks' = (case workflows m owner of None \<Rightarrow> [] | Some ks \<Rightarrow> ks) @ [k]
      \<and> k \<in> set ks'
      \<and> count_list ks' k
          = Suc (count_list (case workflows m owner of None \<Rightarrow> [] | Some ks \<Rightarrow> ks) k)"
  using upsert_success_workflows[OF assms] by simp

theorem upsert_index_append_witness:
  "UpsertCustomMetric exHelpers ''m2'' ''run-A'' (Some exGaugeC) True 2 exA1 = (Success, exA2)
   \<and> workflows exA1 ''run-A'' = Some [''m1'']
   \<and> workflows exA2 ''run-A'' = Some [''m1'', ''m2'']
   \<and> count_list [''m1'', ''m2''] ''m2'' = 1"
proof -
  have w: "workflows exA1 ''run-A'' = Some [''m1'']" by (simp add: exA1_eval)
  from upsert_index_append[OF exA2_eval(1)] w
  have "workflows exA2 ''run-A'' = Some [''m1'', ''m2'']
      \<and> count_list [''m1'', ''m2''] ''m2'' = Suc (count_list [''m1''] ''m2'')"
    by auto
  then show ?thesis using w exA2_eval(1) by simp
qed

text \<open>
  The claim as it was stated (the key occurs exactly once, also when it is upserted
  again) fails: after two realtime upserts of \<open>m1\<close> for \<open>run-A\<close> the index list of
  \<open>run-A\<close> holds \<open>m1\<close> twice.
\<close>

theorem upsert_index_append_counterexample:
  "UpsertCustomMetric exHelpers ''m1'' ''run-A'' (Some exGaugeA) True 1 exInit = (Success, exA1)
   \<and> UpsertCustomMetric exHelpers ''m1'' ''run-A'' (Some exGaugeA) True 2 exA1 = (Success, exDup)
   \<and> workflows exDup ''run-A'' = Some [''m1'', ''m1'']
   \<and> count_list [''m1'', ''m1''] ''m1'' = 2"
  by (simp add: exA1_eval exDup_eval)

text \<open>
  C6. Two successful upserts under the same key, with the instruments \<open>I1\<close> and then
  \<open>I2\<close>, leave one entry under the key, which holds \<open>I2\<close>: the entry map maps the key to
  \<open>I2\<close>, \<open>GetCustomMetric\<close> returns \<open>I2\<close>, the keys of the entry map are those from before
  the two calls and the key, and every other key has the entry it had.
\<close>

theorem upsert_overwrite:
  assumes u1: "UpsertCustomMetric h k owner (Some I1) r t1 m = (Success, m1)"
    and u2: "UpsertCustomMetric h k owner (Some I2) r t2 m1 = (Success, m2)"
  shows "customMetrics m2 k = Some \<lparr>metric = I2, lastUpdated = t2\<rparr>
       \<and> GetCustomMetric k m2 = Some I2
       \<and> dom (customMetrics m2) = insert k (dom (customMetrics m))
       \<and> (\<forall>k'. k' \<noteq> k \<longrightarrow> customMetrics m2 k' = customMetrics m k')"
  using upsert_success_custom[OF u1] upsert_success_custom[OF u2]
  by (auto simp: GetCustomMetric_def)

theorem upsert_overwrite_witness:
  "UpsertCustomMetric exHelpers ''m1'' ''run-A'' (Some exGaugeA) True 1 exInit = (Success, exA1)
   \<and> UpsertCustomMetric exHelpers ''m1'' ''run-A'' (Some exGaugeC) True 2 exA1 = (Success, exOver)
   \<and> GetCustomMetric ''m1'' exA1 = Some exGaugeA
   \<and> customMetrics exOver ''m1'' = Some \<lparr>metric = exGaugeC, lastUpdated = 2\<rparr>
   \<and> GetCustomMetric ''m1'' exOver = Some exGaugeC
   \<and> dom (customMetrics exOver) = {''m1''}"
proof -
  have g: "GetCustomMetric ''m1'' exA1 = Some exGaugeA"
    by (simp add: GetCustomMetric_def exA1_eval)
  show ?thesis
    using upsert_overwrite[OF exA1_eval(1) exOver_eval(1)] exA1_eval(1) exOver_eval(1) g
    by (simp add: exInit_maps)
qed

text \<open>
  C7. The slice that \<open>allMetrics\<close> returns is a new one that holds the sequence of the
  instruments at the moment of the call. After any sequence of later calls, and after
  an \<open>UpsertCustomMetric\<close> in particular, the slice is still there and its length and its
  elements are the same.
\<close>

theorem snapshot_stable:
  assumes "allMetrics ord m = (p, m1)"
  shows "p = length (snapshots m) \<and> snapshots m1 ! p = allMetricsSeq ord m
       \<and> p < length (snapshots (run h ops m1))
       \<and> snapshots (run h ops m1) ! p = snapshots m1 ! p
       \<and> length (snapshots (run h ops m1) ! p) = length (snapshots m1 ! p)
       \<and> snapshots (exec h (Upsert key ownerKey newMetric realtime now) m1) ! p = snapshots m1 ! p"
proof -
  have p: "p = length (snapshots m)" and m1: "snapshots m1 = snapshots m @ [allMetricsSeq ord m]"
    using assms by (auto simp: allMetrics_def)
  obtain ys where r: "snapshots (run h ops m1) = snapshots m1 @ ys"
    using run_snapshots by blast
  obtain zs where e: "snapshots (exec h (Upsert key ownerKey newMetric realtime now) m1) = snapshots m1 @ zs"
    using exec_snapshots by blast
  show ?thesis
    unfolding r e by (simp add: p m1 nth_append)
qed

theorem snapshot_stable_witness:
  "allMetrics exOrdersA exA1 = (1, exSnap)
   \<and> length (snapshots exSnap ! 1) = 17
   \<and> last (snapshots exSnap ! 1) = exGaugeA
   \<and> snapshots (exec exHelpers (Upsert ''m2'' ''run-A'' (Some exGaugeC) True 2) exSnap) ! 1
        = snapshots exSnap ! 1
   \<and> customMetrics (exec exHelpers (Upsert ''m2'' ''run-A'' (Some exGaugeC) True 2) exSnap) ''m2''
        = Some \<lparr>metric = exGaugeC, lastUpdated = 2\<rparr>
   \<and> snapshots (run exHelpers [Upsert ''m2'' ''run-A'' (Some exGaugeC) True 2, Stop ''run-A''] exSnap) ! 1
        = snapshots exSnap ! 1
   \<and> customMetrics
        (run exHelpers [Upsert ''m2'' ''run-A'' (Some exGaugeC) True 2, Stop ''run-A''] exSnap) ''m1''
        = None"
proof -
  have a: "allMetrics exOrdersA exA1 = (1, exSnap)"
    by (simp add: allMetrics_def exSnap_def exA1_snapshots)
  have f: "customMetrics exSnap = customMetrics exA1" "workflows exSnap = workflows exA1"
    "metricNameHelps exSnap = metricNameHelps exA1" "defaultMetricDescs exSnap = defaultMetricDescs exA1"
    by (simp_all add: exSnap_def allMetrics_def)
  have d: "defaultMetricDescs exSnap (desc exGaugeC) = None"
    by (simp add: f exA1_eval ex_descs)
  have h: "metricNameHelps exSnap ''retries'' = None"
    by (simp add: f exA1_eval)
  note u = upsert_eval[OF d ex_recover(3), of "''m2''" "''run-A''" True 2] 
  have c2: "customMetrics (exec exHelpers (Upsert ''m2'' ''run-A'' (Some exGaugeC) True 2) exSnap) ''m2''
        = Some \<lparr>metric = exGaugeC, lastUpdated = 2\<rparr>"
    using u(2) h by simp
  have w2: "workflows (exec exHelpers (Upsert ''m2'' ''run-A'' (Some exGaugeC) True 2) exSnap)
        = [''run-A'' \<mapsto> [''m1'', ''m2'']]"
    using u(3) h by (simp add: f exA1_eval)
  have c3: "customMetrics
        (run exHelpers [Upsert ''m2'' ''run-A'' (Some exGaugeC) True 2, Stop ''run-A''] exSnap) ''m1''
        = None"
    unfolding run_def
    by (simp del: exec.simps(1) add: stop_present[OF fun_cong[OF w2, of "''run-A''", simplified]])
  from snapshot_stable[OF a, of exHelpers
      "[Upsert ''m2'' ''run-A'' (Some exGaugeC) True 2, Stop ''run-A'']"
      "''m2''" "''run-A''" "Some exGaugeC" True 2]
  have t1: "snapshots exSnap ! 1 = allMetricsSeq exOrdersA exA1"
    and t2: "snapshots (run exHelpers [Upsert ''m2'' ''run-A'' (Some exGaugeC) True 2, Stop ''run-A'']
               exSnap) ! 1 = snapshots exSnap ! 1"
    and t3: "snapshots (exec exHelpers (Upsert ''m2'' ''run-A'' (Some exGaugeC) True 2) exSnap) ! 1
               = snapshots exSnap ! 1"
    by blast+
  have l: "length (snapshots exSnap ! 1) = 17" unfolding t1 exA1_seq by simp
  have la: "last (snapshots exSnap ! 1) = exGaugeA" unfolding t1 exA1_seq by simp
  show ?thesis
    by (intro conjI) (rule a l la t3 c2 t2 c3)+
qed

text \<open>
  C8. For every queue name and each of the three accessors: a call in a state that
  holds no instrument for the name and the kind builds one (a gauge for the depth, a
  counter for the adds, a histogram with the buckets 1, 5, 20, 60, 180 for the latency),
  stores it and returns it; after any sequence of later calls, a call of the same
  accessor with the same name returns that same object (the one with the address given
  at the first call), builds nothing and leaves the state as it is.
\<close>

theorem queue_instrument_memoized:
  "(workqueueMetrics m (name @ ''-depth'') = None \<longrightarrow>
      (\<exists>g. NewDepthMetric h name a m
             = (Some g, m\<lparr>workqueueMetrics := (workqueueMetrics m)(name @ ''-depth'' \<mapsto> g)\<rparr>)
          \<and> ident g = a \<and> kind g = Gauge \<and> buckets g = []
          \<and> (\<forall>ops a'. NewDepthMetric h name a' (run h ops (snd (NewDepthMetric h name a m)))
                = (Some g, run h ops (snd (NewDepthMetric h name a m))))))
 \<and> (workqueueMetrics m (name @ ''-adds'') = None \<longrightarrow>
      (\<exists>g. NewAddsMetric h name a m
             = (Some g, m\<lparr>workqueueMetrics := (workqueueMetrics m)(name @ ''-adds'' \<mapsto> g)\<rparr>)
          \<and> ident g = a \<and> kind g = Counter \<and> buckets g = []
          \<and> (\<forall>ops a'. NewAddsMetric h name a' (run h ops (snd (NewAddsMetric h name a m)))
                = (Some g, run h ops (snd (NewAddsMetric h name a m))))))
 \<and> (workqueueMetrics m (name @ ''-latency'') = None \<longrightarrow>
      (\<exists>g. NewLatencyMetric h name a m
             = (Some g, m\<lparr>workqueueMetrics := (workqueueMetrics m)(name @ ''-latency'' \<mapsto> g)\<rparr>)
          \<and> ident g = a \<and> kind g = Histogram \<and> buckets g = [1, 5, 20, 60, 180]
          \<and> (\<forall>ops a'. NewLatencyMetric h name a' (run h ops (snd (NewLatencyMetric h name a m)))
                = (Some g, run h ops (snd (NewLatencyMetric h name a m))))))"
proof (intro conjI impI)
  assume a: "workqueueMetrics m (name @ ''-depth'') = None"
  let ?g = "newGauge h ''queue_depth_count'' ''Depth of the queue'' [(''queue_name'', name)] a"
  have "\<And>ops a'. NewDepthMetric h name a' (run h ops (snd (NewDepthMetric h name a m)))
                = (Some ?g, run h ops (snd (NewDepthMetric h name a m)))"
    by (rule depth_hit, rule run_workqueue_stable) (simp_all add: depth_miss[OF a] newGauge_def)
  then show "\<exists>g. NewDepthMetric h name a m
             = (Some g, m\<lparr>workqueueMetrics := (workqueueMetrics m)(name @ ''-depth'' \<mapsto> g)\<rparr>)
          \<and> ident g = a \<and> kind g = Gauge \<and> buckets g = []
          \<and> (\<forall>ops a'. NewDepthMetric h name a' (run h ops (snd (NewDepthMetric h name a m)))
                = (Some g, run h ops (snd (NewDepthMetric h name a m))))"
    using depth_miss[OF a] by (intro exI[of _ ?g]) (simp add: newGauge_def)
next
  assume a: "workqueueMetrics m (name @ ''-adds'') = None"
  let ?g = "newCounter h ''queue_adds_count'' ''Adds to the queue'' [(''queue_name'', name)] a"
  have "\<And>ops a'. NewAddsMetric h name a' (run h ops (snd (NewAddsMetric h name a m)))
                = (Some ?g, run h ops (snd (NewAddsMetric h name a m)))"
    by (rule adds_hit, rule run_workqueue_stable) (simp_all add: adds_miss[OF a] newCounter_def)
  then show "\<exists>g. NewAddsMetric h name a m
             = (Some g, m\<lparr>workqueueMetrics := (workqueueMetrics m)(name @ ''-adds'' \<mapsto> g)\<rparr>)
          \<and> ident g = a \<and> kind g = Counter \<and> buckets g = []
          \<and> (\<forall>ops a'. NewAddsMetric h name a' (run h ops (snd (NewAddsMetric h name a m)))
                = (Some g, run h ops (snd (NewAddsMetric h name a m))))"
    using adds_miss[OF a] by (intro exI[of _ ?g]) (simp add: newCounter_def)
next
  assume a: "workqueueMetrics m (name @ ''-latency'') = None"
  let ?g = "newHistogram h ''queue_latency'' ''Time objects spend waiting in the queue''
              [(''queue_name'', name)] [1, 5, 20, 60, 180] a"
  have "\<And>ops a'. NewLatencyMetric h name a' (run h ops (snd (NewLatencyMetric h name a m)))
                = (Some ?g, run h ops (snd (NewLatencyMetric h name a m)))"
    by (rule latency_hit, rule run_workqueue_stable) (simp_all add: latency_miss[OF a] newHistogram_def)
  then show "\<exists>g. NewLatencyMetric h name a m
             = (Some g, m\<lparr>workqueueMetrics := (workqueueMetrics m)(name @ ''-latency'' \<mapsto> g)\<rparr>)
          \<and> ident g = a \<and> kind g = Histogram \<and> buckets g = [1, 5, 20, 60, 180]
          \<and> (\<forall>ops a'. NewLatencyMetric h name a' (run h ops (snd (NewLatencyMetric h name a m)))
                = (Some g, run h ops (snd (NewLatencyMetric h name a m))))"
    using latency_miss[OF a] by (intro exI[of _ ?g]) (simp add: newHistogram_def)
qed

theorem queue_instrument_memoized_witness:
  "workqueueMetrics exInit (''workflow'' @ ''-depth'') = None
   \<and> workqueueMetrics exInit (''workflow'' @ ''-adds'') = None
   \<and> workqueueMetrics exInit (''workflow'' @ ''-latency'') = None
   \<and> NewDepthMetric exHelpers ''workflow'' 50 exInit = (Some exDepth, exQ1)
   \<and> ident exDepth = 50 \<and> kind exDepth = Gauge
   \<and> NewDepthMetric exHelpers ''workflow'' 51 exQ1 = (Some exDepth, exQ1)
   \<and> NewDepthMetric exHelpers ''workflow'' 52
        (run exHelpers [Adds ''workflow'' 51, Upsert ''m1'' ''run-A'' (Some exGaugeA) True 1,
           Stop ''run-A''] exQ1)
      = (Some exDepth,
         run exHelpers [Adds ''workflow'' 51, Upsert ''m1'' ''run-A'' (Some exGaugeA) True 1,
           Stop ''run-A''] exQ1)
   \<and> kind (the (fst (NewAddsMetric exHelpers ''workflow'' 60 exInit))) = Counter
   \<and> kind (the (fst (NewLatencyMetric exHelpers ''workflow'' 70 exInit))) = Histogram
   \<and> buckets (the (fst (NewLatencyMetric exHelpers ''workflow'' 70 exInit))) = [1, 5, 20, 60, 180]"
proof -
  have n: "workqueueMetrics exInit (''workflow'' @ ''-depth'') = None"
    "workqueueMetrics exInit (''workflow'' @ ''-adds'') = None"
    "workqueueMetrics exInit (''workflow'' @ ''-latency'') = None"
    by (simp_all add: exInit_maps)
  have q: "snd (NewDepthMetric exHelpers ''workflow'' 50 exInit) = exQ1"
    by (simp add: exQ1_def)
  from queue_instrument_memoized[of exInit "''workflow''" exHelpers 50] n(1)
  obtain g where g: "NewDepthMetric exHelpers ''workflow'' 50 exInit
             = (Some g, exInit\<lparr>workqueueMetrics := (workqueueMetrics exInit)(''workflow'' @ ''-depth'' \<mapsto> g)\<rparr>)"
    "ident g = 50" "kind g = Gauge"
    "\<And>ops a'. NewDepthMetric exHelpers ''workflow'' a'
                 (run exHelpers ops (snd (NewDepthMetric exHelpers ''workflow'' 50 exInit)))
                = (Some g, run exHelpers ops (snd (NewDepthMetric exHelpers ''workflow'' 50 exInit)))"
    by blast
  have ge: "g = exDepth" using g(1) exQ1_eval(1) by simp
  have d1: "ident exDepth = 50" "kind exDepth = Gauge" using g(2,3) ge by simp_all
  have d2: "NewDepthMetric exHelpers ''workflow'' 51 exQ1 = (Some exDepth, exQ1)"
    using g(4)[of 51 "[]"] unfolding q ge by (simp add: run_def)
  have d3: "NewDepthMetric exHelpers ''workflow'' 52
        (run exHelpers [Adds ''workflow'' 51, Upsert ''m1'' ''run-A'' (Some exGaugeA) True 1,
           Stop ''run-A''] exQ1)
      = (Some exDepth,
         run exHelpers [Adds ''workflow'' 51, Upsert ''m1'' ''run-A'' (Some exGaugeA) True 1,
           Stop ''run-A''] exQ1)"
    using g(4)[of 52 "[Adds ''workflow'' 51, Upsert ''m1'' ''run-A'' (Some exGaugeA) True 1,
           Stop ''run-A'']"] unfolding q ge .
  have a: "kind (the (fst (NewAddsMetric exHelpers ''workflow'' 60 exInit))) = Counter"
    using queue_instrument_memoized[of exInit "''workflow''" exHelpers 60] n(2) by auto
  have l: "kind (the (fst (NewLatencyMetric exHelpers ''workflow'' 70 exInit))) = Histogram"
    "buckets (the (fst (NewLatencyMetric exHelpers ''workflow'' 70 exInit))) = [1, 5, 20, 60, 180]"
    using queue_instrument_memoized[of exInit "''workflow''" exHelpers 70] n(3) by auto
  show ?thesis
    by (intro conjI) (rule n exQ1_eval(1) d1 d2 d3 a l)+
qed

text \<open>
  C9. For every state and every order of iteration the runtime can choose, the
  instruments in the slice returned by \<open>allMetrics\<close> are the built-in instruments (the
  twelve instrument fields, every gauge per phase, every counter per error cause), every
  queue instrument and the instrument of every entry of the entry map. In particular
  the instrument of a successful upsert is in a snapshot of the state the upsert leads
  to, and an instrument returned by a queue accessor is in the snapshot of every later
  state.
\<close>

theorem snapshot_complete:
  assumes v: "validOrders ord m" and s: "allMetrics ord m = (p, m')"
  shows "set (snapshots m' ! p)
           = builtinMetrics m \<union> ran (workqueueMetrics m) \<union> metric ` ran (customMetrics m)
       \<and> (\<forall>key e. customMetrics m key = Some e \<longrightarrow> metric e \<in> set (snapshots m' ! p))
       \<and> (\<forall>key g. workqueueMetrics m key = Some g \<longrightarrow> g \<in> set (snapshots m' ! p))
       \<and> (\<forall>key ownerKey nm realtime now m0.
             UpsertCustomMetric h key ownerKey (Some nm) realtime now m0 = (Success, m)
               \<longrightarrow> nm \<in> set (snapshots m' ! p))
       \<and> (\<forall>name a m0 m1 g ops.
             (NewDepthMetric h name a m0 = (Some g, m1) \<or> NewAddsMetric h name a m0 = (Some g, m1)
                \<or> NewLatencyMetric h name a m0 = (Some g, m1))
             \<longrightarrow> m = run h ops m1 \<longrightarrow> g \<in> set (snapshots m' ! p))"
proof -
  have eq: "snapshots m' ! p = allMetricsSeq ord m"
    using s by (auto simp: allMetrics_def)
  have 1: "set (snapshots m' ! p)
           = builtinMetrics m \<union> ran (workqueueMetrics m) \<union> metric ` ran (customMetrics m)"
    unfolding eq by (rule set_allMetricsSeq[OF v])
  have 2: "\<And>key e. customMetrics m key = Some e \<Longrightarrow> metric e \<in> set (snapshots m' ! p)"
    unfolding 1 by (auto simp: ran_def)
  have 3: "\<And>key g. workqueueMetrics m key = Some g \<Longrightarrow> g \<in> set (snapshots m' ! p)"
    unfolding 1 by (auto simp: ran_def)
  have 4: "\<And>key ownerKey nm realtime now m0.
             UpsertCustomMetric h key ownerKey (Some nm) realtime now m0 = (Success, m)
               \<Longrightarrow> nm \<in> set (snapshots m' ! p)"
  proof -
    fix key ownerKey nm realtime now m0
    assume "UpsertCustomMetric h key ownerKey (Some nm) realtime now m0 = (Success, m)"
    from upsert_success_custom[OF this]
    have "customMetrics m key = Some \<lparr>metric = nm, lastUpdated = now\<rparr>" by simp
    from 2[OF this] show "nm \<in> set (snapshots m' ! p)" by simp
  qed
  have 5: "\<And>name a m0 m1 g ops.
             (NewDepthMetric h name a m0 = (Some g, m1) \<or> NewAddsMetric h name a m0 = (Some g, m1)
                \<or> NewLatencyMetric h name a m0 = (Some g, m1))
             \<Longrightarrow> m = run h ops m1 \<Longrightarrow> g \<in> set (snapshots m' ! p)"
  proof -
    fix name a m0 m1 g ops
    assume a: "NewDepthMetric h name a m0 = (Some g, m1) \<or> NewAddsMetric h name a m0 = (Some g, m1)
                \<or> NewLatencyMetric h name a m0 = (Some g, m1)" and r: "m = run h ops m1"
    from a obtain key where "workqueueMetrics m1 key = Some g"
      using accessor_result_stored by blast
    then have "workqueueMetrics m key = Some g"
      unfolding r by (rule run_workqueue_stable)
    then show "g \<in> set (snapshots m' ! p)" by (rule 3)
  qed
  show ?thesis
  proof (intro conjI allI impI)
    show "set (snapshots m' ! p)
           = builtinMetrics m \<union> ran (workqueueMetrics m) \<union> metric ` ran (customMetrics m)"
      by (rule 1)
  next
    fix key e assume "customMetrics m key = Some e"
    then show "metric e \<in> set (snapshots m' ! p)" by (rule 2)
  next
    fix key g assume "workqueueMetrics m key = Some g"
    then show "g \<in> set (snapshots m' ! p)" by (rule 3)
  next
    fix key ownerKey nm realtime now m0
    assume "UpsertCustomMetric h key ownerKey (Some nm) realtime now m0 = (Success, m)"
    then show "nm \<in> set (snapshots m' ! p)" by (rule 4)
  next
    fix name a m0 m1 g ops
    assume "NewDepthMetric h name a m0 = (Some g, m1) \<or> NewAddsMetric h name a m0 = (Some g, m1)
                \<or> NewLatencyMetric h name a m0 = (Some g, m1)" and "m = run h ops m1"
    then show "g \<in> set (snapshots m' ! p)" by (rule 5)
  qed
qed

theorem snapshot_complete_witness:
  "validOrders exOrdersQ exQA
   \<and> allMetrics exOrdersQ exQA = (1, exec exHelpers (Snapshot exOrdersQ) exQA)
   \<and> UpsertCustomMetric exHelpers ''m1'' ''run-A'' (Some exGaugeA) True 1 exInit = (Success, exA1)
   \<and> NewDepthMetric exHelpers ''workflow'' 50 exA1 = (Some exDepth, exQA)
   \<and> exGaugeA \<in> set (snapshots (exec exHelpers (Snapshot exOrdersQ) exQA) ! 1)
   \<and> exDepth \<in> set (snapshots (exec exHelpers (Snapshot exOrdersQ) exQA) ! 1)
   \<and> workflowsProcessed exQA \<in> set (snapshots (exec exHelpers (Snapshot exOrdersQ) exQA) ! 1)
   \<and> deadlineExceeded exQA \<in> set (snapshots (exec exHelpers (Snapshot exOrdersQ) exQA) ! 1)
   \<and> exPhaseRunning \<in> set (snapshots (exec exHelpers (Snapshot exOrdersQ) exQA) ! 1)
   \<and> exErrCron \<in> set (snapshots (exec exHelpers (Snapshot exOrdersQ) exQA) ! 1)"
proof -
  have ln: "length (snapshots exQA) = 1"
    using exA1_snapshots by (simp add: exQA_def NewDepthMetric_def Let_def)
  have a: "allMetrics exOrdersQ exQA = (1, exec exHelpers (Snapshot exOrdersQ) exQA)"
    by (simp add: allMetrics_def ln)
  note t = snapshot_complete[OF exQA_valid a, of exHelpers]
  have c: "customMetrics exQA ''m1'' = Some \<lparr>metric = exGaugeA, lastUpdated = 1\<rparr>"
    by (simp add: exQA_eval exA1_eval)
  have q: "workqueueMetrics exQA ''workflow-depth'' = Some exDepth"
    by (simp add: exQA_eval)
  have 1: "exGaugeA \<in> set (snapshots (exec exHelpers (Snapshot exOrdersQ) exQA) ! 1)"
    using t c by fastforce
  have 2: "exDepth \<in> set (snapshots (exec exHelpers (Snapshot exOrdersQ) exQA) ! 1)"
    using t q by blast
  have s: "set (snapshots (exec exHelpers (Snapshot exOrdersQ) exQA) ! 1)
           = builtinMetrics exQA \<union> ran (workqueueMetrics exQA) \<union> metric ` ran (customMetrics exQA)"
    using t by blast
  have 3: "workflowsProcessed exQA \<in> set (snapshots (exec exHelpers (Snapshot exOrdersQ) exQA) ! 1)"
    "deadlineExceeded exQA \<in> set (snapshots (exec exHelpers (Snapshot exOrdersQ) exQA) ! 1)"
    "exPhaseRunning \<in> set (snapshots (exec exHelpers (Snapshot exOrdersQ) exQA) ! 1)"
    "exErrCron \<in> set (snapshots (exec exHelpers (Snapshot exOrdersQ) exQA) ! 1)"
    unfolding s by (simp_all add: builtinMetrics_def exQA_eval ran_two)
  show ?thesis
    by (intro conjI) (rule exQA_valid a exA1_eval(1) exQA_eval(1) 1 2 3)+
qed

text \<open>
  C10, as amended. Once a successful upsert has registered the name \<open>N\<close> with the help
  text \<open>H1\<close>, the help registry maps \<open>N\<close> to \<open>H1\<close> after every sequence of later calls, so
  also after \<open>StopRealtimeMetricsForKey\<close> has deleted every entry whose instrument has the
  name \<open>N\<close>; an upsert whose instrument has the name \<open>N\<close> and another help text then
  fails and leaves the state as it is. The error is the help text mismatch when the
  descriptor of the instrument is not a built-in one, and the descriptor collision when
  it is.
\<close>

theorem help_binding_permanent:
  assumes "UpsertCustomMetric h key0 owner0 (Some nm0) realtime0 now0 m0 = (Success, m1)"
    and "recoverMetricNameAndHelpFromDesc h (desc nm0) = (N, H1)"
    and "recoverMetricNameAndHelpFromDesc h (desc nm) = (N, H2)"
    and "H2 \<noteq> H1"
  shows "metricNameHelps (run h ops m1) N = Some H1
     \<and> UpsertCustomMetric h key ownerKey (Some nm) realtime now (run h ops m1)
       = (if defaultMetricDescs (run h ops m1) (desc nm) = None then HelpTextMismatch N H2 H1
          else DescriptorCollision (desc nm), run h ops m1)"
proof -
  have "metricNameHelps (run h ops m1) N = Some H1"
    using assms(1,2) by (intro run_help_permanent upsert_success_help)
  then show ?thesis using assms(3,4) by (simp add: UpsertCustomMetric_def)
qed

theorem help_binding_permanent_witness:
  "UpsertCustomMetric exHelpers ''m1'' ''run-A'' (Some exGaugeA) True 1 exInit = (Success, exA1)
   \<and> recoverMetricNameAndHelpFromDesc exHelpers (desc exGaugeA) = (''duration'', ''Duration of a run'')
   \<and> recoverMetricNameAndHelpFromDesc exHelpers (desc exGaugeB) = (''duration'', ''Seconds a run took'')
   \<and> ''Seconds a run took'' \<noteq> ''Duration of a run''
   \<and> run exHelpers [Stop ''run-A''] exA1 = exStopped
   \<and> dom (customMetrics exStopped) = {}
   \<and> metricNameHelps exStopped ''duration'' = Some ''Duration of a run''
   \<and> UpsertCustomMetric exHelpers ''m9'' ''run-B'' (Some exGaugeB) True 3 exStopped
        = (HelpTextMismatch ''duration'' ''Seconds a run took'' ''Duration of a run'', exStopped)"
proof -
  have n: "''Seconds a run took'' \<noteq> ''Duration of a run''" by simp
  have r: "run exHelpers [Stop ''run-A''] exA1 = exStopped"
    by (simp add: run_def exStopped_def)
  have d: "defaultMetricDescs exStopped (desc exGaugeB) = None"
    by (simp add: exStopped_eval(5) ex_descs)
  from help_binding_permanent[OF exA1_eval(1) ex_recover(1) ex_recover(2) n,
      of "[Stop ''run-A'']" "''m9''" "''run-B''" True 3]
  have h: "metricNameHelps exStopped ''duration'' = Some ''Duration of a run''"
    and u: "UpsertCustomMetric exHelpers ''m9'' ''run-B'' (Some exGaugeB) True 3 exStopped
        = (HelpTextMismatch ''duration'' ''Seconds a run took'' ''Duration of a run'', exStopped)"
    unfolding r using d by simp_all
  show ?thesis
    by (intro conjI) (rule exA1_eval(1) ex_recover(1) ex_recover(2) n r exStopped_eval(2) h u)+
qed

text \<open>
  The claim as it was stated fails on this call: the name of the built-in counter was
  registered with a help text of its own, the owner was stopped and no entry is left,
  and the upsert of an instrument with the descriptor of the built-in counter returns
  the descriptor collision and not the help text mismatch.
\<close>

theorem help_binding_permanent_counterexample:
  "UpsertCustomMetric exHelpers ''m0'' ''run-A'' (Some exClash) True 1 exInit = (Success, exC1)
   \<and> recoverMetricNameAndHelpFromDesc exHelpers (desc exClash)
        = (''workflows_processed_count'', ''My own count'')
   \<and> exC2 = StopRealtimeMetricsForKey ''run-A'' exC1
   \<and> dom (customMetrics exC2) = {}
   \<and> recoverMetricNameAndHelpFromDesc exHelpers (desc exShadow)
        = (''workflows_processed_count'', ''Number of workflow updates processed'')
   \<and> ''Number of workflow updates processed'' \<noteq> ''My own count''
   \<and> UpsertCustomMetric exHelpers ''m1'' ''run-B'' (Some exShadow) True 3 exC2
        = (DescriptorCollision (desc exShadow), exC2)
   \<and> fst (UpsertCustomMetric exHelpers ''m1'' ''run-B'' (Some exShadow) True 3 exC2)
        \<noteq> HelpTextMismatch ''workflows_processed_count'' ''Number of workflow updates processed''
             ''My own count''"
proof -
  have "defaultMetricDescs exC2 (desc exShadow) \<noteq> None" by (simp add: exC2_eval(5) ex_descs)
  then have u: "UpsertCustomMetric exHelpers ''m1'' ''run-B'' (Some exShadow) True 3 exC2
        = (DescriptorCollision (desc exShadow), exC2)"
    by (rule upsert_collision)
  have n: "''Number of workflow updates processed'' \<noteq> ''My own count''" by simp
  have f: "fst (UpsertCustomMetric exHelpers ''m1'' ''run-B'' (Some exShadow) True 3 exC2)
        \<noteq> HelpTextMismatch ''workflows_processed_count'' ''Number of workflow updates processed''
             ''My own count''"
    unfolding u by simp
  show ?thesis
    by (intro conjI) (rule exC1_eval(1) ex_recover(4) exC2_eval(1) exC2_eval(2) ex_recover(5) n u f)+
qed

end
